theory Spec2Isabelle
  imports Main "HOL-Library.Sublist"
begin

section \<open>Python values used by the two notifiers\<close>

text \<open>
  A Python \<open>str\<close> is modelled as a \<open>string\<close> holding the bytes of its UTF-8 encoding, so
  \<open>s.encode("utf-8")\<close> is the identity and Python's \<open>x in s\<close> on strings is \<open>sublist x s\<close>
  (UTF-8 is self-synchronising). The three non-ASCII literals of the sources are written
  out as their bytes.
\<close>

definition bullet :: string where
  "bullet = [CHR 0xE2, CHR 0x80, CHR 0xA2]"

definition cross_mark :: string where
  "cross_mark = [CHR 0xE2, CHR 0x9D, CHR 0x8C]"

definition check_mark :: string where
  "check_mark = [CHR 0xE2, CHR 0x9C, CHR 0x85]"

text \<open>Truthiness of a string and of an optional string (\<open>if s\<close>, \<open>not s\<close>, \<open>a or b\<close>).\<close>

definition truthy :: "string option \<Rightarrow> bool" where
  "truthy v = (case v of None \<Rightarrow> False | Some s \<Rightarrow> s \<noteq> [])"

text \<open>\<open>sep.join(xs)\<close>.\<close>

fun str_join :: "string \<Rightarrow> string list \<Rightarrow> string" where
  "str_join sep [] = []"
| "str_join sep [x] = x"
| "str_join sep (x # y # ys) = x @ sep @ str_join sep (y # ys)"

text \<open>\<open>s.split(",")\<close>: always at least one piece.\<close>

fun str_split :: "char \<Rightarrow> string \<Rightarrow> string list" where
  "str_split c [] = [] # []"
| "str_split c (x # xs) =
     (if x = c then [] # str_split c xs
      else (case str_split c xs of
              [] \<Rightarrow> [x] # []
            | p # ps \<Rightarrow> (x # p) # ps))"

text \<open>\<open>str(n)\<close> for an integer: decimal digits, a minus sign for negatives.\<close>

definition digit_char :: "nat \<Rightarrow> char" where
  "digit_char d = ''0123456789'' ! d"

fun str_nat :: "nat \<Rightarrow> string" where
  "str_nat n = (if n < 10 then [digit_char n] else str_nat (n div 10) @ [digit_char (n mod 10)])"

declare str_nat.simps [simp del]

definition str_int :: "int \<Rightarrow> string" where
  "str_int i = (if i < 0 then CHR ''-'' # str_nat (nat (- i)) else str_nat (nat i))"

text \<open>Exceptions, and how a run of a script ends.\<close>

datatype exc =
    ValueError
  | AttributeError
  | ZoneInfoNotFoundError
  | SMTPException  \<comment> \<open>\<open>smtplib.SMTPException\<close> and its subclasses\<close>
  | OtherError     \<comment> \<open>any exception that is not an \<open>SMTPException\<close>: \<open>OSError\<close>, \<open>ssl.SSLError\<close>, ...\<close>

datatype outcome =
    Exit int     \<comment> \<open>\<open>SystemExit(n)\<close>, from \<open>sys.exit\<close> or from the returned value of \<open>main\<close>\<close>
  | Raised exc   \<comment> \<open>an uncaught exception\<close>

text \<open>The exit status of the process: the interpreter ends with status 1 on an uncaught exception.\<close>

fun exit_code :: "outcome \<Rightarrow> int" where
  "exit_code (Exit n) = n"
| "exit_code (Raised e) = 1"

datatype stream = Stdout | Stderr

text \<open>
  Library behaviour that depends on tables or parsers that are not part of the
  repository is a parameter of the model: \<open>str.strip\<close>, \<open>str.upper\<close> and \<open>int(str)\<close>
  (Unicode tables; \<open>py_int\<close> gives \<open>None\<close> where \<open>int\<close> raises \<open>ValueError\<close>), and the header
  factory of the \<open>email\<close> package, which parses the value assigned to the header of the
  given name and gives the exception it raises there, if any (its address parser raises
  on some values of \<open>From\<close> and \<open>To\<close>).
\<close>

record builtins =
  py_strip :: "string \<Rightarrow> string"
  py_upper :: "string \<Rightarrow> string"
  py_int :: "string \<Rightarrow> int option"
  py_header_factory :: "string \<Rightarrow> string \<Rightarrow> exc option"

text \<open>
  The builtins on ASCII text, used to run the model on concrete inputs. \<open>str.strip\<close>
  removes the characters for which \<open>isspace\<close> holds; \<open>int\<close> skips a smaller set.
  The header factory of the instance accepts every value: it is run on the plain
  addresses and subjects of the concrete inputs only.
\<close>

definition is_space :: "char \<Rightarrow> bool" where
  "is_space c = (c \<in> set [CHR '' '', CHR 0x09, CHR 0x0A, CHR 0x0B, CHR 0x0C, CHR 0x0D,
                            CHR 0x1C, CHR 0x1D, CHR 0x1E, CHR 0x1F])"

definition ascii_strip :: "string \<Rightarrow> string" where
  "ascii_strip s = rev (dropWhile is_space (rev (dropWhile is_space s)))"

definition upper_char :: "char \<Rightarrow> char" where
  "upper_char c =
     (case map_of (zip ''abcdefghijklmnopqrstuvwxyz'' ''ABCDEFGHIJKLMNOPQRSTUVWXYZ'') c of
        None \<Rightarrow> c
      | Some u \<Rightarrow> u)"

definition ascii_upper :: "string \<Rightarrow> string" where
  "ascii_upper s = map upper_char s"

definition is_digit :: "char \<Rightarrow> bool" where
  "is_digit c = (let n = of_char c :: nat in 48 \<le> n \<and> n \<le> 57)"

text \<open>The white space \<open>int\<close> skips at both ends of its argument.\<close>

definition is_int_space :: "char \<Rightarrow> bool" where
  "is_int_space c = (c \<in> set [CHR '' '', CHR 0x09, CHR 0x0A, CHR 0x0B, CHR 0x0C, CHR 0x0D])"

text \<open>Digits with single underscores between them, as \<open>int\<close> accepts; the value so far is \<open>acc\<close>.\<close>

fun digits_value :: "nat \<Rightarrow> string \<Rightarrow> nat option" where
  "digits_value acc [] = Some acc"
| "digits_value acc [c] = (if is_digit c then Some (10 * acc + (of_char c - 48)) else None)"
| "digits_value acc (c # d # cs) =
     (if is_digit c then
        (if d = CHR ''_'' then
           (if cs = [] then None else digits_value (10 * acc + (of_char c - 48)) cs)
         else digits_value (10 * acc + (of_char c - 48)) (d # cs))
      else None)"

definition ascii_int :: "string \<Rightarrow> int option" where
  "ascii_int s =
     (let t = rev (dropWhile is_int_space (rev (dropWhile is_int_space s)));
          (neg, ds) = (case t of
                         c # cs \<Rightarrow> if c = CHR ''-'' then (True, cs)
                                   else if c = CHR ''+'' then (False, cs) else (False, t)
                       | [] \<Rightarrow> (False, t))
      in if ds = [] then None
         else (case digits_value 0 ds of
                 None \<Rightarrow> None
               | Some n \<Rightarrow> Some (if neg then - int n else int n)))"

definition accept_header :: "string \<Rightarrow> string \<Rightarrow> exc option" where
  "accept_header name v = None"

definition ascii_builtins :: builtins where
  "ascii_builtins = \<lparr>py_strip = ascii_strip, py_upper = ascii_upper, py_int = ascii_int,
                      py_header_factory = accept_header\<rparr>"

section \<open>Time\<close>

datatype month = Jan | Feb | Mar | Apr | May | Jun | Jul | Aug | Sep | Oct | Nov | Dec

record datetime =
  year :: nat
  month :: month
  day :: nat
  hour :: nat
  minute :: nat
  tzabbrev :: string

text \<open>\<open>strftime\<close> in the C locale: \<open>%b\<close>, \<open>%d\<close>/\<open>%H\<close>/\<open>%M\<close> (two digits), \<open>%Y\<close>.\<close>

fun month_abbrev :: "month \<Rightarrow> string" where
  "month_abbrev Jan = ''Jan''" | "month_abbrev Feb = ''Feb''" | "month_abbrev Mar = ''Mar''"
| "month_abbrev Apr = ''Apr''" | "month_abbrev May = ''May''" | "month_abbrev Jun = ''Jun''"
| "month_abbrev Jul = ''Jul''" | "month_abbrev Aug = ''Aug''" | "month_abbrev Sep = ''Sep''"
| "month_abbrev Oct = ''Oct''" | "month_abbrev Nov = ''Nov''" | "month_abbrev Dec = ''Dec''"

definition two_digits :: "nat \<Rightarrow> string" where
  "two_digits n = (if n < 10 then CHR ''0'' # str_nat n else str_nat n)"

definition strftime_dbY :: "datetime \<Rightarrow> string" where
  "strftime_dbY t = two_digits (day t) @ '' '' @ month_abbrev (month t) @ '' '' @ str_nat (year t)"

definition strftime_HM :: "datetime \<Rightarrow> string" where
  "strftime_HM t = two_digits (hour t) @ '':'' @ two_digits (minute t)"

text \<open>
  The process environment is a map; \<open>os_getenv\<close> is \<open>os.getenv(name, default)\<close>. The clock
  gives \<open>datetime.now(ZoneInfo(name))\<close>, or \<open>None\<close> where the zone lookup raises.
\<close>

type_synonym environ = "string \<rightharpoonup> string"
type_synonym clock = "string \<Rightarrow> datetime option"

definition os_getenv :: "environ \<Rightarrow> string \<Rightarrow> string \<Rightarrow> string" where
  "os_getenv env name dflt = (case env name of None \<Rightarrow> dflt | Some v \<Rightarrow> v)"

section \<open>notify\_email.py\<close>

definition wib_now :: "clock \<Rightarrow> environ \<Rightarrow> string option \<Rightarrow> exc + datetime" where
  "wib_now clk env tz_env =
     (let tzname = (if truthy tz_env then the tz_env else os_getenv env ''TZ'' ''Asia/Jakarta'')
      in case clk tzname of
           Some t \<Rightarrow> Inr t
         | None \<Rightarrow> (case clk ''Asia/Jakarta'' of
                      Some t \<Rightarrow> Inr t
                    | None \<Rightarrow> Inl ZoneInfoNotFoundError))"

text \<open>
  An \<open>EmailMessage\<close>: the values assigned to the three headers by \<open>build_message\<close>, the
  text of the body as \<open>get_content\<close> returns it after \<open>set_content\<close>, and the attachments
  added. The transfer encoding chosen for the payload is outside the model.
\<close>

record attachment =
  att_data :: string
  att_maintype :: string
  att_subtype :: string
  att_filename :: string

record email_message =
  msg_from :: string
  msg_to :: string
  msg_subject :: string
  msg_content :: string
  msg_attachments :: "attachment list"

text \<open>
  Assigning a header, \<open>msg[name] = value\<close>, goes through \<open>header_store_parse\<close> of the policy:
  \<open>ValueError\<close> when \<open>len(value.splitlines()) > 1\<close>, the header factory otherwise.
  \<open>line_break_len\<close> is the length of the line boundary of \<open>str.splitlines\<close> at the head of
  a string, 0 when there is none: CR LF, the single characters LF, CR, VT, FF, FS, GS and
  RS, and U+0085, U+2028 and U+2029 in their UTF-8 bytes. A string holds more than one
  line when something follows its first line boundary.
\<close>

definition line_break_len :: "string \<Rightarrow> nat" where
  "line_break_len s =
     (if prefix [CHR 0x0D, CHR 0x0A] s then 2
      else if prefix [CHR 0xC2, CHR 0x85] s then 2
      else if prefix [CHR 0xE2, CHR 0x80, CHR 0xA8] s \<or> prefix [CHR 0xE2, CHR 0x80, CHR 0xA9] s
      then 3
      else (case s of
              [] \<Rightarrow> 0
            | c # cs \<Rightarrow>
                if c \<in> set [CHR 0x0A, CHR 0x0D, CHR 0x0B, CHR 0x0C, CHR 0x1C, CHR 0x1D, CHR 0x1E]
                then 1 else 0))"

text \<open>The characters a line boundary can begin with.\<close>

definition line_break_start :: "char \<Rightarrow> bool" where
  "line_break_start c =
     (c \<in> set [CHR 0x0A, CHR 0x0D, CHR 0x0B, CHR 0x0C, CHR 0x1C, CHR 0x1D, CHR 0x1E,
                CHR 0xC2, CHR 0xE2])"

fun multi_line :: "string \<Rightarrow> bool" where
  "multi_line [] = False"
| "multi_line (c # cs) =
     (if line_break_len (c # cs) = 0 then multi_line cs
      else drop (line_break_len (c # cs)) (c # cs) \<noteq> [])"

definition header_store_parse :: "builtins \<Rightarrow> string \<Rightarrow> string \<Rightarrow> exc option" where
  "header_store_parse B name v =
     (if multi_line v then Some ValueError else py_header_factory B name v)"

text \<open>
  \<open>set_content\<close> splits the encoded text at CR LF, CR and LF and joins the lines with LF,
  one more LF at the end; \<open>get_content\<close> gives that text back. So every line break
  becomes LF, and an LF is added to a text that does not end in a line break.
\<close>

fun universal_newlines :: "string \<Rightarrow> string" where
  "universal_newlines [] = []"
| "universal_newlines [c] = [if c = CHR 0x0D then CHR 0x0A else c]"
| "universal_newlines (c # d # cs) =
     (if c = CHR 0x0D then
        (if d = CHR 0x0A then CHR 0x0A # universal_newlines cs
         else CHR 0x0A # universal_newlines (d # cs))
      else c # universal_newlines (d # cs))"

definition set_content_text :: "string \<Rightarrow> string" where
  "set_content_text s =
     (let t = universal_newlines s
      in if t = [] \<or> last t \<noteq> CHR 0x0A then t @ [CHR 0x0A] else t)"

definition email_subject :: "datetime \<Rightarrow> string" where
  "email_subject now =
     ''PageSpeed Insight Report - '' @ strftime_dbY now @ '' | '' @ strftime_HM now @ '' WIB''"

definition email_body :: "string \<Rightarrow> string \<Rightarrow> string \<Rightarrow> string" where
  "email_body site status duration =
     ''Site     : '' @ site @ [CHR 0x0A] @
     ''Summary:'' @ [CHR 0x0A] @
     bullet @ '' Status   : '' @ status @ [CHR 0x0A] @
     bullet @ '' Duration : '' @ duration @ '' seconds'' @ [CHR 0x0A, CHR 0x0A] @
     ''Check the attached HTML report for the full test results'' @ [CHR 0x0A] @
     ''This report is auto-generated and maintained by Mazway''"

definition build_message ::
  "builtins \<Rightarrow> clock \<Rightarrow> environ \<Rightarrow> string \<Rightarrow> string \<Rightarrow> string \<Rightarrow> string \<Rightarrow> string list
     \<Rightarrow> string option \<Rightarrow> exc + email_message" where
  "build_message B clk env site status duration sender recipients tz_env =
     (case wib_now clk env tz_env of
        Inl e \<Rightarrow> Inl e
      | Inr now \<Rightarrow>
          (case header_store_parse B ''From'' sender of
             Some e \<Rightarrow> Inl e
           | None \<Rightarrow>
               (case header_store_parse B ''To'' (str_join '', '' recipients) of
                  Some e \<Rightarrow> Inl e
                | None \<Rightarrow>
                    (case header_store_parse B ''Subject'' (email_subject now) of
                       Some e \<Rightarrow> Inl e
                     | None \<Rightarrow>
                         Inr \<lparr>msg_from = sender,
                              msg_to = str_join '', '' recipients,
                              msg_subject = email_subject now,
                              msg_content = set_content_text (email_body site status duration),
                              msg_attachments = []\<rparr>))))"

text \<open>
  The file system as \<open>attach_file\<close> sees it: \<open>os.path.exists\<close>, the bytes read from an
  opened file (\<open>None\<close> where \<open>open\<close> or \<open>read\<close> raises) and the first component of
  \<open>mimetypes.guess_type\<close>.
\<close>

record filesystem =
  fs_exists :: "string \<Rightarrow> bool"
  fs_read :: "string \<Rightarrow> string option"
  fs_guess_type :: "string \<Rightarrow> string option"

text \<open>A printed line: \<open>Line\<close> is a finished text, \<open>LineRepr p v\<close> is the text \<open>p\<close> followed by \<open>str(v)\<close>.\<close>

datatype 'v line = Line stream string | LineRepr stream string 'v

text \<open>\<open>s.split(sep, 1)\<close> unpacked into two names: \<open>None\<close> where the unpacking raises.\<close>

fun split_once :: "char \<Rightarrow> string \<Rightarrow> (string \<times> string) option" where
  "split_once c [] = None"
| "split_once c (x # xs) =
     (if x = c then Some ([], xs)
      else (case split_once c xs of
              None \<Rightarrow> None
            | Some (a, b) \<Rightarrow> Some (x # a, b)))"

text \<open>\<open>os.path.basename\<close>: what follows the last slash.\<close>

definition basename :: "string \<Rightarrow> string" where
  "basename p = rev (takeWhile (\<lambda>c. c \<noteq> CHR ''/'') (rev p))"

definition attach_file ::
  "filesystem \<Rightarrow> email_message \<Rightarrow> string option \<Rightarrow> exc option \<times> email_message \<times> 'v line list" where
  "attach_file fs msg path =
     (case path of
        None \<Rightarrow> (None, msg, [])
      | Some p \<Rightarrow>
          if p = [] then (None, msg, [])
          else if \<not> fs_exists fs p then
            (None, msg, [Line Stderr (''[notify_email] WARNING: attachment not found: '' @ p)])
          else
            (let ctype = (case fs_guess_type fs p of
                            None \<Rightarrow> ''application/octet-stream''
                          | Some c \<Rightarrow> if c = [] then ''application/octet-stream'' else c)
             in case split_once CHR ''/'' ctype of
                  None \<Rightarrow> (Some ValueError, msg, [])
                | Some (maintype, subtype) \<Rightarrow>
                    (case fs_read fs p of
                       None \<Rightarrow> (Some OtherError, msg, [])
                     | Some bytes \<Rightarrow>
                         (None,
                          msg\<lparr>msg_attachments := msg_attachments msg @
                                [\<lparr>att_data = bytes, att_maintype = maintype,
                                  att_subtype = subtype, att_filename = basename p\<rparr>]\<rparr>,
                          []))))"

text \<open>
  The SMTP session as the sequence of calls made on \<open>smtplib\<close>. The server is a function
  from the calls made so far, the current one last, to the exception the current call
  raises, if any. Leaving a \<open>with\<close> block sends QUIT; an exception raised there replaces
  the result of the block.
\<close>

datatype smtp_cmd =
    ConnectSSL string int      \<comment> \<open>\<open>smtplib.SMTP_SSL(host, port, context)\<close>: TLS from the first byte\<close>
  | ConnectPlain string int    \<comment> \<open>\<open>smtplib.SMTP(host, port)\<close>\<close>
  | Ehlo
  | StartTLS
  | Login string string
  | SendMessage email_message
  | Quit

type_synonym server = "smtp_cmd list \<Rightarrow> exc option"

definition call :: "server \<Rightarrow> smtp_cmd \<Rightarrow> smtp_cmd list \<Rightarrow> exc option \<times> smtp_cmd list" where
  "call srv c tr = (srv (tr @ [c]), tr @ [c])"

definition login_and_send ::
  "server \<Rightarrow> email_message \<Rightarrow> string \<Rightarrow> string \<Rightarrow> smtp_cmd list \<Rightarrow> exc option \<times> smtp_cmd list" where
  "login_and_send srv msg user password tr =
     (if user \<noteq> [] \<and> password \<noteq> [] then
        (case call srv (Login user password) tr of
           (Some e, tr1) \<Rightarrow> (Some e, tr1)
         | (None, tr1) \<Rightarrow> call srv (SendMessage msg) tr1)
      else call srv (SendMessage msg) tr)"

definition with_exit :: "server \<Rightarrow> exc option \<times> smtp_cmd list \<Rightarrow> exc option \<times> smtp_cmd list" where
  "with_exit srv body =
     (case call srv Quit (snd body) of
        (Some e, tr) \<Rightarrow> (Some e, tr)
      | (None, tr) \<Rightarrow> (fst body, tr))"

text \<open>The \<open>try\<close> block around \<open>starttls\<close> and the second \<open>ehlo\<close>: an \<open>SMTPException\<close> is dropped.\<close>

definition try_starttls :: "server \<Rightarrow> smtp_cmd list \<Rightarrow> exc option \<times> smtp_cmd list" where
  "try_starttls srv tr =
     (case call srv StartTLS tr of
        (Some e, tr1) \<Rightarrow> (if e = SMTPException then None else Some e, tr1)
      | (None, tr1) \<Rightarrow>
          (case call srv Ehlo tr1 of
             (Some e, tr2) \<Rightarrow> (if e = SMTPException then None else Some e, tr2)
           | (None, tr2) \<Rightarrow> (None, tr2)))"

definition send_email ::
  "server \<Rightarrow> email_message \<Rightarrow> string \<Rightarrow> int \<Rightarrow> string \<Rightarrow> string \<Rightarrow> exc option \<times> smtp_cmd list" where
  "send_email srv msg host port user password =
     (if str_int port = ''465'' then
        (case call srv (ConnectSSL host port) [] of
           (Some e, tr) \<Rightarrow> (Some e, tr)
         | (None, tr) \<Rightarrow> with_exit srv (login_and_send srv msg user password tr))
      else
        (case call srv (ConnectPlain host port) [] of
           (Some e, tr) \<Rightarrow> (Some e, tr)
         | (None, tr) \<Rightarrow>
             with_exit srv
               (case call srv Ehlo tr of
                  (Some e, tr1) \<Rightarrow> (Some e, tr1)
                | (None, tr1) \<Rightarrow>
                    (case try_starttls srv tr1 of
                       (Some e, tr2) \<Rightarrow> (Some e, tr2)
                     | (None, tr2) \<Rightarrow> login_and_send srv msg user password tr2))))"

text \<open>The parsed command line of notify\_email.py; \<open>--status\<close> is one of \<open>email_status_choices\<close>.\<close>

record email_args =
  arg_site :: string
  arg_status :: string
  arg_duration :: string
  arg_report :: "string option"
  arg_to :: "string option"

definition email_status_choices :: "string list" where
  "email_status_choices = [''Success'', ''Fail'', ''Failed'', ''Success/Fail'']"

record email_world =
  w_clock :: clock
  w_fs :: filesystem
  w_server :: server

definition resolve_recipients :: "builtins \<Rightarrow> string option \<Rightarrow> string \<Rightarrow> string list" where
  "resolve_recipients B to env_to =
     map (py_strip B)
       (filter (\<lambda>e. py_strip B e \<noteq> [])
          (if truthy to then str_split CHR '','' (the to) else str_split CHR '','' env_to))"

definition effective_status :: "string \<Rightarrow> string" where
  "effective_status status = (if status = ''Failed'' then ''Fail'' else status)"

text \<open>\<open>main\<close>: how the run ends, the lines printed and the SMTP calls made.\<close>

definition email_main ::
  "builtins \<Rightarrow> environ \<Rightarrow> email_world \<Rightarrow> email_args \<Rightarrow> outcome \<times> unit line list \<times> smtp_cmd list" where
  "email_main B env w args =
     (let host = env ''SMTP_HOST'' in
      case py_int B (os_getenv env ''SMTP_PORT'' ''587'') of
        None \<Rightarrow> (Raised ValueError, [], [])
      | Some port \<Rightarrow>
          (let user = os_getenv env ''SMTP_USER'' [];
               password = os_getenv env ''SMTP_PASS'' [];
               sender = env ''EMAIL_FROM'';
               env_to = os_getenv env ''EMAIL_TO'' [];
               tz_env = os_getenv env ''TZ'' ''Asia/Jakarta''
           in if \<not> truthy host \<or> \<not> truthy sender \<or> (env_to = [] \<and> \<not> truthy (arg_to args)) then
                (Exit 2,
                 [Line Stderr (''[notify_email] Missing SMTP_HOST/EMAIL_FROM/EMAIL_TO. '' @
                               ''Set via env or GitHub Secrets.'')],
                 [])
              else
                (let recipients = resolve_recipients B (arg_to args) env_to
                 in if recipients = [] then
                      (Exit 2, [Line Stderr ''[notify_email] No recipients resolved.''], [])
                    else
                      (case build_message B (w_clock w) env (arg_site args)
                              (effective_status (arg_status args)) (arg_duration args)
                              (the sender) recipients (Some tz_env) of
                         Inl e \<Rightarrow> (Raised e, [], [])
                       | Inr msg \<Rightarrow>
                           (case attach_file (w_fs w) msg (arg_report args) of
                              (Some e, msg1, out) \<Rightarrow> (Raised e, out, [])
                            | (None, msg1, out) \<Rightarrow>
                                (case send_email (w_server w) msg1 (the host) port user password of
                                   (Some e, tr) \<Rightarrow> (Raised e, out, tr)
                                 | (None, tr) \<Rightarrow>
                                     (Exit 0,
                                      out @ [Line Stdout (''[notify_email] Email sent to: '' @
                                                          str_join '', '' recipients)],
                                      tr)))))))"

section \<open>notify\_telegram.py\<close>

text \<open>
  A decoded JSON document (\<open>json.loads\<close>). A float is \<open>m * 2 ^ e\<close>, infinite or NaN. An
  object is the list of its items, keys distinct, as a \<open>dict\<close> holds them.
\<close>

datatype pyfloat = Finite int int | Infinite | NaN

datatype json =
    JNull
  | JBool bool
  | JInt int
  | JFloat pyfloat
  | JStr string
  | JList "json list"
  | JDict "(string \<times> json) list"

text \<open>\<open>bool(v)\<close>.\<close>

fun py_bool :: "json \<Rightarrow> bool" where
  "py_bool JNull = False"
| "py_bool (JBool b) = b"
| "py_bool (JInt i) = (i \<noteq> 0)"
| "py_bool (JFloat f) = (case f of Finite m e \<Rightarrow> m \<noteq> 0 | Infinite \<Rightarrow> True | NaN \<Rightarrow> True)"
| "py_bool (JStr s) = (s \<noteq> [])"
| "py_bool (JList xs) = (xs \<noteq> [])"
| "py_bool (JDict kvs) = (kvs \<noteq> [])"

text \<open>\<open>res.get(key)\<close>: only a \<open>dict\<close> has the method; a missing key gives \<open>None\<close>.\<close>

fun json_get :: "json \<Rightarrow> string \<Rightarrow> exc + json" where
  "json_get (JDict kvs) k = Inr (case map_of kvs k of None \<Rightarrow> JNull | Some v \<Rightarrow> v)"
| "json_get v k = Inl AttributeError"

text \<open>\<open>urllib.parse.urlencode\<close> of a dict whose values are strings or booleans.\<close>

datatype pyval = PStr string | PBool bool

fun str_of_pyval :: "pyval \<Rightarrow> string" where
  "str_of_pyval (PStr s) = s"
| "str_of_pyval (PBool b) = (if b then ''True'' else ''False'')"

definition hex_digit :: "nat \<Rightarrow> char" where
  "hex_digit d = ''0123456789ABCDEF'' ! d"

definition always_safe :: "char \<Rightarrow> bool" where
  "always_safe c =
     (let n = of_char c :: nat
      in (65 \<le> n \<and> n \<le> 90) \<or> (97 \<le> n \<and> n \<le> 122) \<or> (48 \<le> n \<and> n \<le> 57)
         \<or> c \<in> set ''_.-~'')"

definition quote_byte :: "char \<Rightarrow> string" where
  "quote_byte c =
     (if c = CHR '' '' then ''+''
      else if always_safe c then [c]
      else [CHR ''%'', hex_digit (of_char c div 16), hex_digit (of_char c mod 16)])"

definition quote_plus :: "string \<Rightarrow> string" where
  "quote_plus s = concat (map quote_byte s)"

definition urlencode :: "(string \<times> pyval) list \<Rightarrow> string" where
  "urlencode items =
     str_join ''&'' (map (\<lambda>(k, v). quote_plus k @ ''='' @ quote_plus (str_of_pyval v)) items)"

text \<open>
  A request handed to \<open>urllib.request.urlopen\<close>. \<open>urllib\<close> sends POST when the request
  carries data, GET otherwise. The transport gives the decoded JSON body, or the exception
  raised by \<open>urlopen\<close>, \<open>read\<close>, \<open>decode\<close> or \<open>json.loads\<close>.
\<close>

datatype http_method = GET | POST

record http_request =
  req_url :: string
  req_data :: "string option"
  req_timeout :: nat

definition get_method :: "http_request \<Rightarrow> http_method" where
  "get_method r = (case req_data r of None \<Rightarrow> GET | Some d \<Rightarrow> POST)"

type_synonym transport = "http_request \<Rightarrow> exc + json"

definition message_data :: "string \<Rightarrow> string \<Rightarrow> string \<Rightarrow> (string \<times> pyval) list" where
  "message_data chat_id text parse_mode =
     [(''chat_id'', PStr chat_id),
      (''text'', PStr text),
      (''parse_mode'', PStr parse_mode),
      (''disable_web_page_preview'', PBool True)]"

definition message_request :: "string \<Rightarrow> string \<Rightarrow> string \<Rightarrow> string \<Rightarrow> http_request" where
  "message_request token chat_id text parse_mode =
     \<lparr>req_url = ''https://api.telegram.org/bot'' @ token @ ''/sendMessage'',
      req_data = Some (urlencode (message_data chat_id text parse_mode)),
      req_timeout = 20\<rparr>"

text \<open>\<open>send_message\<close>: the result of the call and the requests issued.\<close>

definition send_message ::
  "transport \<Rightarrow> string \<Rightarrow> string \<Rightarrow> string \<Rightarrow> string \<Rightarrow> (exc + json) \<times> http_request list" where
  "send_message http token chat_id text parse_mode =
     (let req = message_request token chat_id text parse_mode
      in (http req, [req]))"

text \<open>\<open>env(name, default, required)\<close>: the value, or the line printed before \<open>sys.exit(2)\<close>.\<close>

definition env_lookup ::
  "builtins \<Rightarrow> environ \<Rightarrow> string \<Rightarrow> string option \<Rightarrow> bool \<Rightarrow> 'v line + string option" where
  "env_lookup B env name dflt required =
     (let v = (case env name of None \<Rightarrow> dflt | Some x \<Rightarrow> Some x)
      in if required \<and> (case v of None \<Rightarrow> True | Some x \<Rightarrow> py_strip B x = [])
         then Inl (Line Stderr (''[notify_telegram] Missing required env: '' @ name))
         else Inr v)"

text \<open>An optional string inside an f-string or passed to \<open>str\<close>.\<close>

definition str_opt :: "string option \<Rightarrow> string" where
  "str_opt v = (case v of None \<Rightarrow> ''None'' | Some s \<Rightarrow> s)"

record telegram_args =
  t_status :: string
  t_site :: string
  t_duration :: "string option"
  t_dashboard :: "string option"
  t_extra :: "string option"

text \<open>\<open>utc_now\<close> is \<open>datetime.now(timezone.utc)\<close>, used when the zone lookup raises.\<close>

record telegram_world =
  tw_clock :: clock
  tw_utc_now :: datetime
  tw_http :: transport

definition badge_fail :: string where
  "badge_fail = cross_mark @ '' FAILED''"

definition badge_success :: string where
  "badge_success = check_mark @ '' SUCCESS''"

definition badge_of :: "builtins \<Rightarrow> string \<Rightarrow> string" where
  "badge_of B status_arg =
     (let status = py_upper B (py_strip B status_arg)
      in if status \<in> set [''FAIL'', ''FAILED''] then badge_fail else badge_success)"

definition now_str :: "telegram_world \<Rightarrow> string \<Rightarrow> string" where
  "now_str w tz =
     (case tw_clock w tz of
        Some t \<Rightarrow> strftime_dbY t @ '' | '' @ strftime_HM t @ '' '' @ tzabbrev t
      | None \<Rightarrow> strftime_dbY (tw_utc_now w) @ '' | '' @ strftime_HM (tw_utc_now w) @ '' UTC'')"

definition message_lines :: "builtins \<Rightarrow> environ \<Rightarrow> telegram_world \<Rightarrow> telegram_args \<Rightarrow> string list" where
  "message_lines B env w args =
     [''<b>PageSpeed Insight Report</b>'',
      ''Status: <b>'' @ badge_of B (t_status args) @ ''</b>'',
      ''Site: <code>'' @ t_site args @ ''</code>'']
     @ (if truthy (t_duration args) then [''Duration: <b>'' @ the (t_duration args) @ '' s</b>''] else [])
     @ [''Time: '' @ now_str w (os_getenv env ''TZ'' ''Asia/Jakarta'')]
     @ (if truthy (t_dashboard args) then [''Dashboard: '' @ the (t_dashboard args)] else [])
     @ (if truthy (t_extra args) then [the (t_extra args)] else [])"

definition message_text :: "builtins \<Rightarrow> environ \<Rightarrow> telegram_world \<Rightarrow> telegram_args \<Rightarrow> string" where
  "message_text B env w args = str_join [CHR 0x0A] (message_lines B env w args)"

text \<open>What follows \<open>send_message\<close> in \<open>main\<close>, given the decoded response.\<close>

definition report_result :: "json \<Rightarrow> outcome \<times> json line list" where
  "report_result res =
     (case json_get res ''ok'' of
        Inl e \<Rightarrow> (Raised e, [])
      | Inr v \<Rightarrow>
          if \<not> py_bool v then
            (Exit 1, [LineRepr Stderr ''[notify_telegram] Telegram API error: '' res])
          else (Exit 0, [Line Stdout ''[notify_telegram] Sent.'']))"

definition telegram_main ::
  "builtins \<Rightarrow> environ \<Rightarrow> telegram_world \<Rightarrow> telegram_args
     \<Rightarrow> outcome \<times> json line list \<times> http_request list" where
  "telegram_main B env w args =
     (case env_lookup B env ''TELEGRAM_BOT_TOKEN'' None True of
        Inl l \<Rightarrow> (Exit 2, [l], [])
      | Inr token \<Rightarrow>
          (case env_lookup B env ''TELEGRAM_CHAT_ID'' None True of
             Inl l \<Rightarrow> (Exit 2, [l], [])
           | Inr chat_id \<Rightarrow>
               (case send_message (tw_http w) (str_opt token) (str_opt chat_id)
                       (message_text B env w args) ''HTML'' of
                  (Inl e, reqs) \<Rightarrow> (Raised e, [], reqs)
                | (Inr res, reqs) \<Rightarrow>
                    (case report_result res of (oc, out) \<Rightarrow> (oc, out, reqs)))))"

section \<open>Concrete inputs\<close>

text \<open>The value of a string of decimal digits, for reading \<open>str_nat\<close> back.\<close>

definition digits_nat :: "string \<Rightarrow> nat" where
  "digits_nat s = foldl (\<lambda>acc c. 10 * acc + (of_char c - 48)) 0 s"

definition sample_now :: datetime where
  "sample_now = \<lparr>year = 2026, month = Nov, day = 4, hour = 20, minute = 5, tzabbrev = ''WIB''\<rparr>"

definition sample_clock :: clock where
  "sample_clock z = (if z = ''Asia/Jakarta'' then Some sample_now else None)"

definition sample_env :: environ where
  "sample_env = map_of
     [(''SMTP_HOST'', ''smtp.example.com''),
      (''SMTP_PORT'', ''587''),
      (''SMTP_USER'', ''ci''),
      (''SMTP_PASS'', ''secret''),
      (''EMAIL_FROM'', ''ci@example.com''),
      (''EMAIL_TO'', ''a@example.com, b@example.com''),
      (''TELEGRAM_BOT_TOKEN'', ''123:abc''),
      (''TELEGRAM_CHAT_ID'', ''-1001'')]"

text \<open>A file system with no file at all.\<close>

definition empty_fs :: filesystem where
  "empty_fs = \<lparr>fs_exists = (\<lambda>p. False), fs_read = (\<lambda>p. None), fs_guess_type = (\<lambda>p. None)\<rparr>"

text \<open>A server that accepts every call, and one that accepts all but STARTTLS.\<close>

definition ok_server :: server where
  "ok_server tr = None"

definition no_starttls_server :: server where
  "no_starttls_server tr = (if tr \<noteq> [] \<and> last tr = StartTLS then Some SMTPException else None)"

definition sample_world :: email_world where
  "sample_world = \<lparr>w_clock = sample_clock, w_fs = empty_fs, w_server = ok_server\<rparr>"

definition sample_args :: email_args where
  "sample_args = \<lparr>arg_site = ''https://example.com'', arg_status = ''Failed'',
                  arg_duration = ''4.99'', arg_report = None, arg_to = None\<rparr>"

definition sample_msg :: email_message where
  "sample_msg = \<lparr>msg_from = ''ci@example.com'', msg_to = ''a@example.com, b@example.com'',
                 msg_subject = ''PageSpeed Insight Report - 04 Nov 2026 | 20:05 WIB'',
                 msg_content = set_content_text (email_body ''https://example.com'' ''Fail'' ''4.99''),
                 msg_attachments = []\<rparr>"

text \<open>
  The recipients as the specification words them: \<open>--to\<close> split on commas and trimmed, or,
  when \<open>--to\<close> is absent, \<open>EMAIL_TO\<close>. Compared with \<open>resolve_recipients\<close> below.
\<close>

definition claimed_recipients :: "builtins \<Rightarrow> string option \<Rightarrow> string \<Rightarrow> string list" where
  "claimed_recipients B to env_to =
     map (py_strip B)
       (filter (\<lambda>e. py_strip B e \<noteq> [])
          (case to of Some t \<Rightarrow> str_split CHR '','' t | None \<Rightarrow> str_split CHR '','' env_to))"

definition bad_port_env :: environ where
  "bad_port_env = map_of [(''SMTP_PORT'', ''abc'')]"

definition no_host_env :: environ where
  "no_host_env = map_of [(''EMAIL_FROM'', ''ci@example.com''), (''EMAIL_TO'', ''a@example.com'')]"

definition empty_to_args :: email_args where
  "empty_to_args = \<lparr>arg_site = ''https://example.com'', arg_status = ''Success'',
                    arg_duration = ''4.99'', arg_report = None, arg_to = Some []\<rparr>"

definition missing_report_args :: email_args where
  "missing_report_args = \<lparr>arg_site = ''https://example.com'', arg_status = ''Success'',
                          arg_duration = ''4.99'', arg_report = Some ''dashboard/index.html'',
                          arg_to = Some ''a@example.com''\<rparr>"

definition empty_report_args :: email_args where
  "empty_report_args = \<lparr>arg_site = ''https://example.com'', arg_status = ''Success'',
                        arg_duration = ''4.99'', arg_report = Some [],
                        arg_to = Some ''a@example.com''\<rparr>"

text \<open>
  The form fields as the specification words them, with the link preview flag written
  \<open>true\<close>. Compared with \<open>message_data\<close>.
\<close>

definition claimed_message_data :: "string \<Rightarrow> string \<Rightarrow> (string \<times> pyval) list" where
  "claimed_message_data chat_id text =
     [(''chat_id'', PStr chat_id),
      (''text'', PStr text),
      (''parse_mode'', PStr ''HTML''),
      (''disable_web_page_preview'', PStr ''true'')]"

text \<open>Three answers of the Telegram API: accepted, rejected, and an object without \<open>ok\<close>.\<close>

definition response_ok :: json where
  "response_ok = JDict [(''ok'', JBool True), (''result'', JDict [(''message_id'', JInt 7)])]"

definition response_rejected :: json where
  "response_rejected =
     JDict [(''ok'', JBool False), (''error_code'', JInt 400), (''description'', JStr ''Bad Request'')]"

definition response_without_ok :: json where
  "response_without_ok = JDict [(''error_code'', JInt 502)]"

definition transport_ok :: transport where
  "transport_ok r = Inr response_ok"

definition transport_rejected :: transport where
  "transport_rejected r = Inr response_rejected"

definition transport_without_ok :: transport where
  "transport_without_ok r = Inr response_without_ok"

definition failed_targs :: telegram_args where
  "failed_targs = \<lparr>t_status = '' fAiled '', t_site = ''https://example.com'',
                    t_duration = Some ''4.99'', t_dashboard = None, t_extra = None\<rparr>"

definition success_targs :: telegram_args where
  "success_targs = \<lparr>t_status = ''success'', t_site = ''https://example.com'',
                     t_duration = None, t_dashboard = None, t_extra = None\<rparr>"

definition tworld_ok :: telegram_world where
  "tworld_ok = \<lparr>tw_clock = sample_clock, tw_utc_now = sample_now, tw_http = transport_ok\<rparr>"

definition tworld_rejected :: telegram_world where
  "tworld_rejected =
     \<lparr>tw_clock = sample_clock, tw_utc_now = sample_now, tw_http = transport_rejected\<rparr>"

definition tworld_without_ok :: telegram_world where
  "tworld_without_ok =
     \<lparr>tw_clock = sample_clock, tw_utc_now = sample_now, tw_http = transport_without_ok\<rparr>"

text \<open>A site with a carriage return in it, and the message built for it.\<close>

definition cr_site :: string where
  "cr_site = [CHR ''a'', CHR 0x0D, CHR ''b'']"

definition cr_site_msg :: email_message where
  "cr_site_msg = \<lparr>msg_from = ''ci@example.com'', msg_to = ''a@example.com'',
                    msg_subject = ''PageSpeed Insight Report - 04 Nov 2026 | 20:05 WIB'',
                    msg_content = set_content_text (email_body cr_site ''Success'' ''4.99''),
                    msg_attachments = []\<rparr>"

section \<open>Properties\<close>

subsection \<open>Decimal rendering\<close>

lemma digit_char_value: "d < 10 \<Longrightarrow> of_char (digit_char d) - 48 = d"
proof -
  assume "d < 10"
  then have "d \<in> {0, 1, 2, 3, 4, 5, 6, 7, 8, 9}" by auto
  then show ?thesis by (auto simp: digit_char_def)
qed

lemma digits_nat_snoc: "digits_nat (s @ [c]) = 10 * digits_nat s + (of_char c - 48)"
  by (simp add: digits_nat_def)

lemma digits_nat_str_nat: "digits_nat (str_nat n) = n"
proof (induction n rule: str_nat.induct)
  case (1 n)
  show ?case
  proof (cases "n < 10")
    case True
    then show ?thesis
      by (subst str_nat.simps) (simp add: digits_nat_def digit_char_value)
  next
    case False
    then have "digits_nat (str_nat (n div 10)) = n div 10" using 1 by simp
    with False show ?thesis
      by (subst str_nat.simps) (simp add: digits_nat_snoc digit_char_value)
  qed
qed

lemma str_nat_465: "str_nat n = ''465'' \<longleftrightarrow> n = 465"
proof
  assume "str_nat n = ''465''"
  then have "digits_nat (str_nat n) = digits_nat ''465''" by simp
  moreover have "digits_nat ''465'' = 465" by (simp add: digits_nat_def)
  ultimately show "n = 465" by (simp add: digits_nat_str_nat)
next
  assume "n = 465"
  then show "str_nat n = ''465''" by (simp add: str_nat.simps digit_char_def)
qed

text \<open>\<open>str(port) == "465"\<close> holds exactly when the port is 465.\<close>

lemma str_int_465: "str_int p = ''465'' \<longleftrightarrow> p = 465"
proof (cases "p < 0")
  case True
  then show ?thesis by (simp add: str_int_def)
next
  case False
  then have "str_int p = str_nat (nat p)" by (simp add: str_int_def)
  with False show ?thesis by (auto simp: str_nat_465)
qed

subsection \<open>The text of the body\<close>

lemma universal_newlines_Cons:
  "c \<noteq> CHR 0x0D \<Longrightarrow> universal_newlines (c # cs) = c # universal_newlines cs"
  by (cases cs) simp_all

lemma universal_newlines_plain:
  "CHR 0x0D \<notin> set x \<Longrightarrow> universal_newlines (x @ y) = x @ universal_newlines y"
proof (induction x)
  case Nil
  then show ?case by simp
next
  case (Cons a x)
  then have "a \<noteq> CHR 0x0D" and "CHR 0x0D \<notin> set x" by auto
  with Cons.IH show ?case by (simp add: universal_newlines_Cons)
qed

lemma universal_newlines_split:
  "c \<noteq> CHR 0x0D \<Longrightarrow> c \<noteq> CHR 0x0A \<Longrightarrow>
   universal_newlines (a @ c # y) = universal_newlines a @ c # universal_newlines y"
proof (induction a rule: universal_newlines.induct)
  case 1
  then show ?case by (simp add: universal_newlines_Cons)
next
  case (2 x)
  then show ?case by (simp add: universal_newlines_Cons)
next
  case (3 x d xs)
  then show ?case by simp
qed

lemma sublist_set_content_text:
  "sublist x (universal_newlines s) \<Longrightarrow> sublist x (set_content_text s)"
proof -
  assume "sublist x (universal_newlines s)"
  then obtain ps ss where t: "universal_newlines s = ps @ x @ ss"
    unfolding sublist_def by blast
  then have "universal_newlines s @ [CHR 0x0A] = ps @ x @ (ss @ [CHR 0x0A])" by simp
  then have "sublist x (universal_newlines s @ [CHR 0x0A])"
    unfolding sublist_def by blast
  moreover have "sublist x (universal_newlines s)"
    using t unfolding sublist_def by blast
  ultimately show ?thesis by (simp add: set_content_text_def Let_def)
qed

text \<open>A stretch of text without CR, after a character that is no line break, stays as it is.\<close>

lemma embedded_in_content:
  assumes "c \<noteq> CHR 0x0D" and "c \<noteq> CHR 0x0A" and "CHR 0x0D \<notin> set x"
  shows "sublist (c # x) (set_content_text (a @ c # x @ b))"
proof -
  have "universal_newlines (a @ c # x @ b) = universal_newlines a @ (c # x) @ universal_newlines b"
    using assms by (simp add: universal_newlines_split universal_newlines_plain)
  then have "sublist (c # x) (universal_newlines (a @ c # x @ b))"
    unfolding sublist_def by blast
  then show ?thesis by (rule sublist_set_content_text)
qed

subsection \<open>The line check on header values\<close>

lemma line_break_len_0: "\<not> line_break_start c \<Longrightarrow> line_break_len (c # cs) = 0"
  by (auto simp: line_break_len_def line_break_start_def)

lemma single_line: "\<forall>c \<in> set s. \<not> line_break_start c \<Longrightarrow> \<not> multi_line s"
  by (induction s) (simp_all add: line_break_len_0)

lemma digit_char_plain: "d < 10 \<Longrightarrow> \<not> line_break_start (digit_char d)"
proof -
  assume "d < 10"
  then have "d \<in> {0, 1, 2, 3, 4, 5, 6, 7, 8, 9}" by auto
  then show ?thesis by (auto simp: digit_char_def line_break_start_def)
qed

lemma str_nat_plain: "c \<in> set (str_nat n) \<Longrightarrow> \<not> line_break_start c"
proof (induction n rule: str_nat.induct)
  case (1 n)
  show ?case
  proof (cases "n < 10")
    case True
    then have "str_nat n = [digit_char n]" by (subst str_nat.simps) simp
    with True 1(2) show ?thesis by (simp add: digit_char_plain)
  next
    case False
    then have eq: "str_nat n = str_nat (n div 10) @ [digit_char (n mod 10)]"
      by (subst str_nat.simps) simp
    have "n mod 10 < 10" by simp
    then have d: "\<not> line_break_start (digit_char (n mod 10))" by (rule digit_char_plain)
    from 1(2) eq have "c \<in> set (str_nat (n div 10)) \<or> c = digit_char (n mod 10)" by auto
    then show ?thesis using 1(1) [OF False] d by blast
  qed
qed

lemma two_digits_plain: "c \<in> set (two_digits n) \<Longrightarrow> \<not> line_break_start c"
proof -
  assume "c \<in> set (two_digits n)"
  then have "c = CHR ''0'' \<or> c \<in> set (str_nat n)"
    by (auto simp: two_digits_def split: if_splits)
  moreover have "\<not> line_break_start CHR ''0''" by (simp add: line_break_start_def)
  ultimately show ?thesis using str_nat_plain by blast
qed

lemma month_abbrev_plain: "c \<in> set (month_abbrev m) \<Longrightarrow> \<not> line_break_start c"
  by (cases m) (auto simp: line_break_start_def)


text \<open>The subject never holds a line break, so its assignment passes the line check.\<close>

lemma email_subject_single_line: "\<not> multi_line (email_subject now)"
proof -
  have lit: "\<And>c. c \<in> set ''PageSpeed Insight Report - '' \<union> set '' | '' \<union> set '':''
                \<union> set '' WIB'' \<union> set '' '' \<Longrightarrow> \<not> line_break_start c"
    by (auto simp: line_break_start_def)
  have "\<not> line_break_start c" if "c \<in> set (email_subject now)" for c
  proof -
    from that have "c \<in> set ''PageSpeed Insight Report - '' \<union> set '' | '' \<union> set '':''
                \<union> set '' WIB'' \<union> set '' ''
        \<or> c \<in> set (two_digits (day now)) \<or> c \<in> set (month_abbrev (month now))
        \<or> c \<in> set (str_nat (year now)) \<or> c \<in> set (two_digits (hour now))
        \<or> c \<in> set (two_digits (minute now))"
      unfolding email_subject_def strftime_dbY_def strftime_HM_def set_append by blast
    then show ?thesis
      using lit two_digits_plain month_abbrev_plain str_nat_plain by blast
  qed
  then show ?thesis using single_line by blast
qed

subsection \<open>The email\<close>

lemma sublist_tail: "sublist (c # x) y \<Longrightarrow> sublist x y"
proof -
  assume "sublist (c # x) y"
  then obtain ps ss where "y = ps @ (c # x) @ ss" unfolding sublist_def by blast
  then have "y = (ps @ [c]) @ x @ ss" by simp
  then show ?thesis unfolding sublist_def by blast
qed

text \<open>A sender of several lines is refused when the header is assigned.\<close>

lemma build_message_multi_line_sender:
  assumes "wib_now clk env tz_env = Inr now" and "multi_line sender"
  shows "build_message B clk env site status duration sender recipients tz_env = Inl ValueError"
  using assms by (simp add: build_message_def header_store_parse_def)

lemma site_in_body:
  "CHR 0x0D \<notin> set site \<Longrightarrow> sublist site (set_content_text (email_body site status duration))"
proof -
  assume cr: "CHR 0x0D \<notin> set site"
  obtain b where "email_body site status duration = ''Site     :'' @ CHR '' '' # site @ b"
    by (simp add: email_body_def)
  moreover have "sublist (CHR '' '' # site) (set_content_text (''Site     :'' @ CHR '' '' # site @ b))"
    using cr by (intro embedded_in_content) simp_all
  ultimately show ?thesis using sublist_tail by metis
qed

lemma status_line_in_body:
  "CHR 0x0D \<notin> set status \<Longrightarrow>
   sublist (bullet @ '' Status   : '' @ status @ [CHR 0x0A])
     (set_content_text (email_body site status duration))"
proof -
  assume cr: "CHR 0x0D \<notin> set status"
  define x where "x = [CHR 0x80, CHR 0xA2] @ '' Status   : '' @ status @ [CHR 0x0A]"
  define a where "a = ''Site     : '' @ site @ [CHR 0x0A] @ ''Summary:'' @ [CHR 0x0A]"
  define b where "b = bullet @ '' Duration : '' @ duration @ '' seconds'' @ [CHR 0x0A, CHR 0x0A] @
             ''Check the attached HTML report for the full test results'' @ [CHR 0x0A] @
             ''This report is auto-generated and maintained by Mazway''"
  have eq: "email_body site status duration = a @ CHR 0xE2 # x @ b"
    by (simp add: email_body_def bullet_def a_def b_def x_def)
  have "CHR 0x0D \<notin> set x" using cr by (simp add: x_def)
  then have "sublist (CHR 0xE2 # x) (set_content_text (a @ CHR 0xE2 # x @ b))"
    by (intro embedded_in_content) simp_all
  then have sub: "sublist (CHR 0xE2 # x) (set_content_text (email_body site status duration))"
    by (simp only: eq)
  have bul: "CHR 0xE2 # x = bullet @ '' Status   : '' @ status @ [CHR 0x0A]"
    by (simp add: bullet_def x_def)
  from sub show ?thesis by (simp only: bul)
qed

lemma status_in_body:
  "CHR 0x0D \<notin> set status \<Longrightarrow> sublist status (set_content_text (email_body site status duration))"
proof -
  assume cr: "CHR 0x0D \<notin> set status"
  define a where "a = ''Site     : '' @ site @ [CHR 0x0A] @ ''Summary:'' @ [CHR 0x0A] @
             bullet @ '' Status   :''"
  define b where "b = [CHR 0x0A] @ bullet @ '' Duration : '' @ duration @ '' seconds'' @
             [CHR 0x0A, CHR 0x0A] @
             ''Check the attached HTML report for the full test results'' @ [CHR 0x0A] @
             ''This report is auto-generated and maintained by Mazway''"
  have eq: "email_body site status duration = a @ CHR '' '' # status @ b"
    by (simp add: email_body_def a_def b_def)
  have "sublist (CHR '' '' # status) (set_content_text (a @ CHR '' '' # status @ b))"
    using cr by (intro embedded_in_content) simp_all
  then have "sublist (CHR '' '' # status) (set_content_text (email_body site status duration))"
    by (simp only: eq)
  then show ?thesis by (rule sublist_tail)
qed

lemma duration_in_body:
  "CHR 0x0D \<notin> set duration \<Longrightarrow>
   sublist duration (set_content_text (email_body site status duration))"
proof -
  assume cr: "CHR 0x0D \<notin> set duration"
  obtain a b where "email_body site status duration = a @ CHR '' '' # duration @ b"
  proof
    show "email_body site status duration =
            (''Site     : '' @ site @ [CHR 0x0A] @ ''Summary:'' @ [CHR 0x0A] @
             bullet @ '' Status   : '' @ status @ [CHR 0x0A] @ bullet @ '' Duration :'')
            @ CHR '' '' # duration @
            ('' seconds'' @ [CHR 0x0A, CHR 0x0A] @
             ''Check the attached HTML report for the full test results'' @ [CHR 0x0A] @
             ''This report is auto-generated and maintained by Mazway'')"
      by (simp add: email_body_def)
  qed
  moreover have "sublist (CHR '' '' # duration) (set_content_text (a @ CHR '' '' # duration @ b))"
    using cr by (intro embedded_in_content) simp_all
  ultimately show ?thesis using sublist_tail by metis
qed

text \<open>
  C1, as the code has it. Whenever the clock can be read and the three header values are
  accepted, \<open>build_message\<close> returns an email whose subject is
  \<open>PageSpeed Insight Report - {day} {monthAbbrev} {year} | {HH:MM} WIB\<close>, with the literal
  suffix \<open>WIB\<close> whatever the time zone is, and whose body contains each of the site, status
  and duration strings passed in that holds no carriage return.
\<close>

theorem build_message_subject_body:
  assumes "wib_now clk env tz_env = Inr now"
    and "header_store_parse B ''From'' sender = None"
    and "header_store_parse B ''To'' (str_join '', '' recipients) = None"
    and "py_header_factory B ''Subject'' (email_subject now) = None"
  shows "\<exists>m. build_message B clk env site status duration sender recipients tz_env = Inr m
           \<and> msg_subject m =
               ''PageSpeed Insight Report - '' @ two_digits (day now) @ '' '' @
               month_abbrev (month now) @ '' '' @ str_nat (year now) @ '' | '' @
               two_digits (hour now) @ '':'' @ two_digits (minute now) @ '' WIB''
           \<and> suffix '' WIB'' (msg_subject m)
           \<and> (CHR 0x0D \<notin> set site \<longrightarrow> sublist site (msg_content m))
           \<and> (CHR 0x0D \<notin> set status \<longrightarrow> sublist status (msg_content m))
           \<and> (CHR 0x0D \<notin> set duration \<longrightarrow> sublist duration (msg_content m))"
proof -
  let ?m = "\<lparr>msg_from = sender, msg_to = str_join '', '' recipients,
             msg_subject = email_subject now,
             msg_content = set_content_text (email_body site status duration),
             msg_attachments = []\<rparr>"
  have "header_store_parse B ''Subject'' (email_subject now) = None"
    using assms(4) email_subject_single_line by (simp add: header_store_parse_def)
  then have built:
    "build_message B clk env site status duration sender recipients tz_env = Inr ?m"
    using assms(1-3) by (simp add: build_message_def)
  have subj: "msg_subject ?m =
               ''PageSpeed Insight Report - '' @ two_digits (day now) @ '' '' @
               month_abbrev (month now) @ '' '' @ str_nat (year now) @ '' | '' @
               two_digits (hour now) @ '':'' @ two_digits (minute now) @ '' WIB''"
    by (simp add: email_subject_def strftime_dbY_def strftime_HM_def)
  have suf: "suffix '' WIB'' (msg_subject ?m)"
    unfolding suffix_def by (simp add: email_subject_def)
  have s1: "CHR 0x0D \<notin> set site \<longrightarrow> sublist site (msg_content ?m)"
    by (simp add: site_in_body)
  have s2: "CHR 0x0D \<notin> set status \<longrightarrow> sublist status (msg_content ?m)"
    by (simp add: status_in_body)
  have s3: "CHR 0x0D \<notin> set duration \<longrightarrow> sublist duration (msg_content ?m)"
    by (simp add: duration_in_body)
  show ?thesis
    using built subj suf s1 s2 s3 by blast
qed

text \<open>Unfolding the header check on concrete values.\<close>

lemmas header_defs = header_store_parse_def line_break_len_def ascii_builtins_def
  accept_header_def

theorem build_message_subject_body_witness:
  "wib_now sample_clock sample_env (Some ''Mars/Base'') = Inr sample_now
   \<and> header_store_parse ascii_builtins ''From'' ''ci@example.com'' = None
   \<and> header_store_parse ascii_builtins ''To'' (str_join '', '' [''a@example.com'']) = None
   \<and> (\<exists>m. build_message ascii_builtins sample_clock sample_env ''https://example.com''
              ''Success'' ''4.99'' ''ci@example.com'' [''a@example.com''] (Some ''Mars/Base'')
            = Inr m
          \<and> msg_subject m = ''PageSpeed Insight Report - 04 Nov 2026 | 20:05 WIB''
          \<and> suffix '' WIB'' (msg_subject m)
          \<and> sublist ''https://example.com'' (msg_content m)
          \<and> sublist ''Success'' (msg_content m)
          \<and> sublist ''4.99'' (msg_content m))"
proof -
  have w: "wib_now sample_clock sample_env (Some ''Mars/Base'') = Inr sample_now"
    by (simp add: wib_now_def truthy_def sample_clock_def)
  have f: "header_store_parse ascii_builtins ''From'' ''ci@example.com'' = None"
    by (simp add: header_defs)
  have t: "header_store_parse ascii_builtins ''To'' (str_join '', '' [''a@example.com'']) = None"
    by (simp add: header_defs)
  have s: "py_header_factory ascii_builtins ''Subject'' (email_subject sample_now) = None"
    by (simp add: ascii_builtins_def accept_header_def)
  show ?thesis
    using w f t build_message_subject_body [OF w f t s, of "''https://example.com''"
        "''Success''" "''4.99''"]
    by (simp add: sample_now_def two_digits_def str_nat.simps digit_char_def)
qed

text \<open>
  The claim as worded fails for a site with a carriage return in it: \<open>set_content\<close>
  rewrites the carriage return to a line feed, so the body of the email built for the
  site \<open>a<CR>b\<close> does not contain that site.
\<close>

theorem cr_site_counterexample:
  "build_message ascii_builtins sample_clock sample_env cr_site ''Success'' ''4.99''
     ''ci@example.com'' [''a@example.com''] None = Inr cr_site_msg
   \<and> \<not> sublist cr_site (msg_content cr_site_msg)"
proof -
  have "build_message ascii_builtins sample_clock sample_env cr_site ''Success'' ''4.99''
     ''ci@example.com'' [''a@example.com''] None = Inr cr_site_msg"
    by (simp add: build_message_def wib_now_def truthy_def os_getenv_def sample_env_def
        sample_clock_def header_defs cr_site_msg_def email_subject_def strftime_dbY_def
        strftime_HM_def sample_now_def two_digits_def str_nat.simps digit_char_def)
  moreover have "CHR 0x0D \<notin> set (msg_content cr_site_msg)"
    by (simp add: cr_site_msg_def set_content_text_def email_body_def bullet_def cr_site_def)
  then have "\<not> sublist cr_site (msg_content cr_site_msg)"
    unfolding sublist_def cr_site_def by auto
  ultimately show ?thesis by simp
qed

subsection \<open>Running the model\<close>

lemmas ascii_defs = ascii_builtins_def ascii_int_def ascii_strip_def ascii_upper_def
  upper_char_def is_space_def is_int_space_def is_digit_def accept_header_def

lemmas email_defs = email_main_def os_getenv_def truthy_def resolve_recipients_def
  build_message_def header_store_parse_def line_break_len_def wib_now_def effective_status_def attach_file_def send_email_def
  str_int_465 call_def try_starttls_def login_and_send_def with_exit_def email_subject_def
  strftime_dbY_def strftime_HM_def two_digits_def str_nat.simps digit_char_def Let_def

lemmas sample_defs = sample_env_def sample_world_def sample_args_def sample_clock_def
  sample_now_def ok_server_def no_starttls_server_def empty_fs_def bad_port_env_def
  no_host_env_def empty_to_args_def missing_report_args_def empty_report_args_def sample_msg_def

subsection \<open>Validation in \<open>main\<close> of notify\_email.py\<close>

text \<open>
  C9. If \<open>SMTP_PORT\<close> is set to a string that \<open>int\<close> rejects, \<open>main\<close> raises the
  conversion error before any validation check: nothing is printed, no SMTP call is made,
  and the exit status of the process is neither 0 nor 2.
\<close>

theorem invalid_port_raises:
  assumes "env ''SMTP_PORT'' = Some s" and "py_int B s = None"
  shows "email_main B env w args = (Raised ValueError, [], [])
         \<and> exit_code (fst (email_main B env w args)) \<noteq> 0
         \<and> exit_code (fst (email_main B env w args)) \<noteq> 2"
proof -
  have "py_int B (os_getenv env ''SMTP_PORT'' ''587'') = None"
    using assms by (simp add: os_getenv_def)
  then have "email_main B env w args = (Raised ValueError, [], [])"
    by (simp add: email_main_def)
  then show ?thesis by simp
qed

theorem invalid_port_raises_witness:
  "bad_port_env ''SMTP_PORT'' = Some ''abc''
   \<and> py_int ascii_builtins ''abc'' = None
   \<and> email_main ascii_builtins bad_port_env sample_world sample_args
       = (Raised ValueError, [], [])
   \<and> exit_code (fst (email_main ascii_builtins bad_port_env sample_world sample_args)) = 1"
proof -
  have a: "bad_port_env ''SMTP_PORT'' = Some ''abc''"
    by (simp add: bad_port_env_def)
  have b: "py_int ascii_builtins ''abc'' = None"
    by (simp add: ascii_defs)
  show ?thesis
    using a b invalid_port_raises [where env = bad_port_env and s = "''abc''"
        and B = ascii_builtins and w = sample_world and args = sample_args]
    by simp
qed

text \<open>
  C2, as the code has it. When \<open>SMTP_HOST\<close> or \<open>EMAIL_FROM\<close> is missing or empty, or no
  recipient remains after splitting \<open>--to\<close> (or \<open>EMAIL_TO\<close> when \<open>--to\<close> is absent or empty)
  on commas and trimming, no SMTP call is made; and \<open>main\<close> returns 2 provided
  \<open>SMTP_PORT\<close> is unset or converts to an integer.
\<close>

theorem validation_failure_exit_2:
  assumes "\<not> truthy (env ''SMTP_HOST'') \<or> \<not> truthy (env ''EMAIL_FROM'')
           \<or> resolve_recipients B (arg_to args) (os_getenv env ''EMAIL_TO'' []) = []"
  shows "snd (snd (email_main B env w args)) = []
         \<and> (py_int B (os_getenv env ''SMTP_PORT'' ''587'') \<noteq> None
              \<longrightarrow> fst (email_main B env w args) = Exit 2)"
  using assms
  by (auto simp: email_main_def Let_def split: option.splits)

theorem validation_failure_exit_2_witness:
  "\<not> truthy (no_host_env ''SMTP_HOST'')
   \<and> py_int ascii_builtins (os_getenv no_host_env ''SMTP_PORT'' ''587'') \<noteq> None
   \<and> snd (snd (email_main ascii_builtins no_host_env sample_world sample_args)) = []
   \<and> fst (email_main ascii_builtins no_host_env sample_world sample_args) = Exit 2"
proof -
  have a: "\<not> truthy (no_host_env ''SMTP_HOST'')"
    by (simp add: no_host_env_def truthy_def)
  have b: "py_int ascii_builtins (os_getenv no_host_env ''SMTP_PORT'' ''587'') \<noteq> None"
    by (simp add: no_host_env_def os_getenv_def ascii_defs)
  show ?thesis
    using a b validation_failure_exit_2 [where env = no_host_env and B = ascii_builtins
        and w = sample_world and args = sample_args]
    by simp
qed

text \<open>
  The claim as worded fails twice. With \<open>SMTP_HOST\<close> missing and \<open>SMTP_PORT=abc\<close> the run
  ends in \<open>ValueError\<close>, not in exit code 2. With \<open>--to ""\<close> no recipient remains after
  splitting \<open>--to\<close>, yet \<open>main\<close> falls back to \<open>EMAIL_TO\<close>, sends the mail and returns 0.
\<close>

theorem validation_counterexample:
  "bad_port_env ''SMTP_HOST'' = None
   \<and> fst (email_main ascii_builtins bad_port_env sample_world sample_args) = Raised ValueError
   \<and> arg_to empty_to_args = Some []
   \<and> claimed_recipients ascii_builtins (arg_to empty_to_args) (os_getenv sample_env ''EMAIL_TO'' []) = []
   \<and> fst (email_main ascii_builtins sample_env sample_world empty_to_args) = Exit 0
   \<and> snd (snd (email_main ascii_builtins sample_env sample_world empty_to_args)) \<noteq> []"
  by (simp add: email_defs sample_defs ascii_defs claimed_recipients_def)

subsection \<open>The SMTP session\<close>

lemma snd_call: "snd (call srv c tr) = tr @ [c]"
  by (simp add: call_def)

lemma snd_with_exit: "snd (with_exit srv body) = snd body @ [Quit]"
  by (simp add: with_exit_def call_def split: option.splits)

lemma login_and_send_trace:
  "\<exists>xs. snd (login_and_send srv msg user pw tr) = tr @ xs \<and> xs \<noteq> []
        \<and> set xs \<subseteq> {Login user pw, SendMessage msg}"
  by (simp add: login_and_send_def call_def split: option.splits)

lemma try_starttls_trace:
  "\<exists>xs. snd (try_starttls srv tr) = tr @ xs \<and> set xs \<subseteq> {StartTLS, Ehlo}"
  by (simp add: try_starttls_def call_def split: option.splits)

text \<open>The calls of a session: the connection first, then only calls of the mode chosen.\<close>

lemma send_email_trace:
  "\<exists>xs. snd (send_email srv msg host port user pw) =
          (if port = 465 then ConnectSSL host port else ConnectPlain host port) # xs
        \<and> set xs \<subseteq> (if port = 465 then {} else {Ehlo, StartTLS})
                    \<union> {Login user pw, SendMessage msg, Quit}"
proof (cases "port = 465")
  case True
  obtain xs where xs: "snd (login_and_send srv msg user pw [ConnectSSL host port]) = [ConnectSSL host port] @ xs"
      "set xs \<subseteq> {Login user pw, SendMessage msg}"
    using login_and_send_trace by blast
  show ?thesis
  proof (cases "srv [ConnectSSL host port]")
    case None
    then have "snd (send_email srv msg host port user pw) = ConnectSSL host port # xs @ [Quit]"
      using True xs by (simp add: send_email_def str_int_465 call_def snd_with_exit)
    then show ?thesis using True xs by auto
  next
    case (Some e)
    then have "snd (send_email srv msg host port user pw) = [ConnectSSL host port]"
      using True by (simp add: send_email_def str_int_465 call_def)
    then show ?thesis using True by simp
  qed
next
  case False
  let ?c = "ConnectPlain host port"
  show ?thesis
  proof (cases "srv [?c]")
    case (Some e)
    then have "snd (send_email srv msg host port user pw) = [?c]"
      using False by (simp add: send_email_def str_int_465 call_def)
    then show ?thesis using False by simp
  next
    case None
    note conn = None
    show ?thesis
    proof (cases "srv [?c, Ehlo]")
      case (Some e)
      then have "snd (send_email srv msg host port user pw) = [?c, Ehlo, Quit]"
        using False conn by (simp add: send_email_def str_int_465 call_def snd_with_exit)
      then show ?thesis using False by simp
    next
      case None
      obtain r t where ts: "try_starttls srv [?c, Ehlo] = (r, t)"
        by (cases "try_starttls srv [?c, Ehlo]")
      obtain ys where ys: "t = [?c, Ehlo] @ ys" "set ys \<subseteq> {StartTLS, Ehlo}"
        using try_starttls_trace [of srv "[?c, Ehlo]"] ts by auto
      show ?thesis
      proof (cases r)
        case (Some e)
        then have "snd (send_email srv msg host port user pw) = ?c # Ehlo # ys @ [Quit]"
          using False conn None ts ys
          by (simp add: send_email_def str_int_465 call_def snd_with_exit)
        then show ?thesis using False ys by auto
      next
        case None2: None
        obtain zs where zs: "snd (login_and_send srv msg user pw t) = t @ zs"
          "set zs \<subseteq> {Login user pw, SendMessage msg}"
          using login_and_send_trace by blast
        have "snd (send_email srv msg host port user pw) = ?c # Ehlo # ys @ zs @ [Quit]"
          using False conn None None2 ts ys zs
          by (simp add: send_email_def str_int_465 call_def snd_with_exit)
        then show ?thesis using False ys zs by auto
      qed
    qed
  qed
qed

lemma try_starttls_first:
  "\<exists>ys. snd (try_starttls srv tr) = tr @ StartTLS # ys"
  by (simp add: try_starttls_def call_def split: option.splits)

lemma try_starttls_rejected:
  "srv (tr @ [StartTLS]) = Some SMTPException \<Longrightarrow> try_starttls srv tr = (None, tr @ [StartTLS])"
  by (simp add: try_starttls_def call_def)

lemma login_and_send_extends:
  "\<exists>zs. snd (login_and_send srv msg user pw tr) = tr @ zs"
  using login_and_send_trace by blast

lemma plain_session:
  assumes "port \<noteq> 465" and "srv [ConnectPlain host port] = None"
    and "srv [ConnectPlain host port, Ehlo] = None"
  shows "send_email srv msg host port user pw =
           with_exit srv
             (case try_starttls srv [ConnectPlain host port, Ehlo] of
                (Some e, tr2) \<Rightarrow> (Some e, tr2)
              | (None, tr2) \<Rightarrow> login_and_send srv msg user pw tr2)"
  using assms by (simp add: send_email_def str_int_465 call_def)

text \<open>
  C3. \<open>send_email\<close> chooses the transport by the port alone. On port 465 the session opens
  with \<open>SMTP_SSL\<close> (TLS from the start) and never issues STARTTLS. On every other port it
  opens in plaintext, says EHLO and attempts STARTTLS; when the server answers STARTTLS
  with an \<open>SMTPException\<close> (rejected or not supported) the session goes on, on the same
  plaintext connection, with the login and the message instead of failing.
\<close>

theorem send_email_transport_by_port:
  "(port = 465 \<longrightarrow>
      (\<exists>xs. snd (send_email srv msg host port user pw) = ConnectSSL host port # xs
            \<and> set xs \<subseteq> {Login user pw, SendMessage msg, Quit}))
   \<and> (port \<noteq> 465 \<longrightarrow>
      (\<exists>xs. snd (send_email srv msg host port user pw) = ConnectPlain host port # xs
            \<and> set xs \<subseteq> {Ehlo, StartTLS, Login user pw, SendMessage msg, Quit})
      \<and> (srv [ConnectPlain host port] = None \<and> srv [ConnectPlain host port, Ehlo] = None \<longrightarrow>
            take 3 (snd (send_email srv msg host port user pw))
              = [ConnectPlain host port, Ehlo, StartTLS])
      \<and> (srv [ConnectPlain host port] = None \<and> srv [ConnectPlain host port, Ehlo] = None
            \<and> srv [ConnectPlain host port, Ehlo, StartTLS] = Some SMTPException \<longrightarrow>
            send_email srv msg host port user pw =
              with_exit srv
                (login_and_send srv msg user pw [ConnectPlain host port, Ehlo, StartTLS])))"
proof (intro conjI impI)
  assume "port = 465"
  then show "\<exists>xs. snd (send_email srv msg host port user pw) = ConnectSSL host port # xs
            \<and> set xs \<subseteq> {Login user pw, SendMessage msg, Quit}"
    using send_email_trace [of srv msg host port user pw] by auto
next
  assume "port \<noteq> 465"
  then show "\<exists>xs. snd (send_email srv msg host port user pw) = ConnectPlain host port # xs
            \<and> set xs \<subseteq> {Ehlo, StartTLS, Login user pw, SendMessage msg, Quit}"
    using send_email_trace [of srv msg host port user pw] by auto
next
  let ?c = "ConnectPlain host port"
  assume p: "port \<noteq> 465" and ok: "srv [?c] = None \<and> srv [?c, Ehlo] = None"
  obtain r t where ts: "try_starttls srv [?c, Ehlo] = (r, t)"
    by (cases "try_starttls srv [?c, Ehlo]")
  obtain ys where ys: "t = [?c, Ehlo] @ StartTLS # ys"
    using try_starttls_first [of srv "[?c, Ehlo]"] ts by auto
  have "\<exists>zs. snd (send_email srv msg host port user pw) = [?c, Ehlo, StartTLS] @ zs"
  proof (cases r)
    case None
    obtain zs where "snd (login_and_send srv msg user pw t) = t @ zs"
      using login_and_send_extends by blast
    then show ?thesis
      using p ok ts ys None by (simp add: plain_session snd_with_exit)
  next
    case (Some e)
    then show ?thesis
      using p ok ts ys by (simp add: plain_session snd_with_exit)
  qed
  then show "take 3 (snd (send_email srv msg host port user pw)) = [?c, Ehlo, StartTLS]"
    by auto
next
  let ?c = "ConnectPlain host port"
  assume p: "port \<noteq> 465"
    and ok: "srv [?c] = None \<and> srv [?c, Ehlo] = None \<and> srv [?c, Ehlo, StartTLS] = Some SMTPException"
  have "try_starttls srv [?c, Ehlo] = (None, [?c, Ehlo, StartTLS])"
    using ok try_starttls_rejected [of srv "[?c, Ehlo]"] by simp
  then show "send_email srv msg host port user pw =
              with_exit srv (login_and_send srv msg user pw [?c, Ehlo, StartTLS])"
    using p ok by (simp add: plain_session)
qed

theorem send_email_transport_by_port_witness:
  "send_email ok_server sample_msg ''smtp.example.com'' 465 ''ci'' ''secret''
     = (None, [ConnectSSL ''smtp.example.com'' 465, Login ''ci'' ''secret'',
               SendMessage sample_msg, Quit])
   \<and> send_email ok_server sample_msg ''smtp.example.com'' 587 ''ci'' ''secret''
     = (None, [ConnectPlain ''smtp.example.com'' 587, Ehlo, StartTLS, Ehlo,
               Login ''ci'' ''secret'', SendMessage sample_msg, Quit])
   \<and> no_starttls_server [ConnectPlain ''smtp.example.com'' 25, Ehlo, StartTLS] = Some SMTPException
   \<and> send_email no_starttls_server sample_msg ''smtp.example.com'' 25 ''ci'' ''secret''
     = (None, [ConnectPlain ''smtp.example.com'' 25, Ehlo, StartTLS,
               Login ''ci'' ''secret'', SendMessage sample_msg, Quit])"
  using send_email_transport_by_port [of 465 ok_server sample_msg "''smtp.example.com''" "''ci''" "''secret''"]
    send_email_transport_by_port [of 587 ok_server sample_msg "''smtp.example.com''" "''ci''" "''secret''"]
    send_email_transport_by_port [of 25 no_starttls_server sample_msg "''smtp.example.com''" "''ci''" "''secret''"]
  by (simp add: send_email_def str_int_465 call_def try_starttls_def login_and_send_def
      with_exit_def ok_server_def no_starttls_server_def)

subsection \<open>What \<open>main\<close> sends\<close>

lemma send_email_messages:
  "SendMessage m \<in> set (snd (send_email srv msg host port user pw)) \<Longrightarrow> m = msg"
proof -
  assume a: "SendMessage m \<in> set (snd (send_email srv msg host port user pw))"
  obtain xs where "snd (send_email srv msg host port user pw) =
          (if port = 465 then ConnectSSL host port else ConnectPlain host port) # xs"
     and "set xs \<subseteq> (if port = 465 then {} else {Ehlo, StartTLS})
                    \<union> {Login user pw, SendMessage msg, Quit}"
    using send_email_trace by blast
  with a show "m = msg" by (auto split: if_splits)
qed

lemma send_email_trace_not_Nil: "snd (send_email srv msg host port user pw) \<noteq> []"
  using send_email_trace [of srv msg host port user pw] by auto

lemma attach_file_content:
  "attach_file fs msg path = (r, msg1, out) \<Longrightarrow> msg_content msg1 = msg_content msg"
  by (auto simp: attach_file_def Let_def split: option.splits if_splits prod.splits)

lemma build_message_content:
  "build_message B clk env site status duration sender recipients tz = Inr msg
   \<Longrightarrow> msg_content msg = set_content_text (email_body site status duration)
       \<and> msg_attachments msg = []"
  by (auto simp: build_message_def split: sum.splits option.splits)

text \<open>\<open>main\<close> once the port is converted and the validation checks are passed.\<close>

lemma email_main_validated:
  assumes "py_int B (os_getenv env ''SMTP_PORT'' ''587'') = Some port"
    and "truthy (env ''SMTP_HOST'')" and "truthy (env ''EMAIL_FROM'')"
    and "os_getenv env ''EMAIL_TO'' [] \<noteq> [] \<or> truthy (arg_to args)"
    and "resolve_recipients B (arg_to args) (os_getenv env ''EMAIL_TO'' []) \<noteq> []"
  shows "email_main B env w args =
     (case build_message B (w_clock w) env (arg_site args)
              (effective_status (arg_status args)) (arg_duration args)
              (the (env ''EMAIL_FROM''))
              (resolve_recipients B (arg_to args) (os_getenv env ''EMAIL_TO'' []))
              (Some (os_getenv env ''TZ'' ''Asia/Jakarta'')) of
        Inl e \<Rightarrow> (Raised e, [], [])
      | Inr msg \<Rightarrow>
          (case attach_file (w_fs w) msg (arg_report args) of
             (Some e, msg1, out) \<Rightarrow> (Raised e, out, [])
           | (None, msg1, out) \<Rightarrow>
               (case send_email (w_server w) msg1 (the (env ''SMTP_HOST'')) port
                       (os_getenv env ''SMTP_USER'' []) (os_getenv env ''SMTP_PASS'' []) of
                  (Some e, tr) \<Rightarrow> (Raised e, out, tr)
                | (None, tr) \<Rightarrow>
                    (Exit 0,
                     out @ [Line Stdout (''[notify_email] Email sent to: '' @
                              str_join '', ''
                                (resolve_recipients B (arg_to args) (os_getenv env ''EMAIL_TO'' [])))],
                     tr))))"
  using assms by (auto simp: email_main_def Let_def)

lemma email_main_not_validated:
  assumes "py_int B (os_getenv env ''SMTP_PORT'' ''587'') = None
           \<or> \<not> truthy (env ''SMTP_HOST'') \<or> \<not> truthy (env ''EMAIL_FROM'')
           \<or> (os_getenv env ''EMAIL_TO'' [] = [] \<and> \<not> truthy (arg_to args))
           \<or> resolve_recipients B (arg_to args) (os_getenv env ''EMAIL_TO'' []) = []"
  shows "snd (snd (email_main B env w args)) = []"
  using assms by (auto simp: email_main_def Let_def split: option.splits)

lemma email_main_sent_body:
  assumes "SendMessage m \<in> set (snd (snd (email_main B env w args)))"
  shows "msg_content m =
           set_content_text
             (email_body (arg_site args) (effective_status (arg_status args)) (arg_duration args))"
proof -
  let ?rec = "resolve_recipients B (arg_to args) (os_getenv env ''EMAIL_TO'' [])"
  let ?build = "build_message B (w_clock w) env (arg_site args)
              (effective_status (arg_status args)) (arg_duration args)
              (the (env ''EMAIL_FROM'')) ?rec (Some (os_getenv env ''TZ'' ''Asia/Jakarta''))"
  have ne: "snd (snd (email_main B env w args)) \<noteq> []" using assms by auto
  then obtain port where port: "py_int B (os_getenv env ''SMTP_PORT'' ''587'') = Some port"
    using email_main_not_validated [of B env args w]
    by (cases "py_int B (os_getenv env ''SMTP_PORT'' ''587'')") auto
  have v: "truthy (env ''SMTP_HOST'')" "truthy (env ''EMAIL_FROM'')"
      "os_getenv env ''EMAIL_TO'' [] \<noteq> [] \<or> truthy (arg_to args)" "?rec \<noteq> []"
    using ne email_main_not_validated [of B env args w] by blast+
  note unfold = email_main_validated [OF port v, of w]
  show ?thesis
  proof (cases ?build)
    case (Inl e)
    then show ?thesis using ne unfold by simp
  next
    case (Inr msg)
    let ?att = "attach_file (w_fs w) msg (arg_report args)
                  :: exc option \<times> email_message \<times> unit line list"
    obtain r msg1 out where att: "?att = (r, msg1, out)"
      by (cases ?att) auto
    show ?thesis
    proof (cases r)
      case (Some e)
      then show ?thesis using ne unfold Inr att by simp
    next
      case None
      let ?send = "send_email (w_server w) msg1 (the (env ''SMTP_HOST'')) port
                       (os_getenv env ''SMTP_USER'' []) (os_getenv env ''SMTP_PASS'' [])"
      have "snd (snd (email_main B env w args)) = snd ?send"
        using unfold Inr att None by (simp split: prod.splits option.splits)
      then have "m = msg1" using assms send_email_messages by metis
      moreover have "msg_content msg1 = msg_content msg"
        using att attach_file_content by blast
      ultimately show ?thesis using build_message_content [OF Inr] by simp
    qed
  qed
qed

subsection \<open>Status and report in \<open>main\<close> of notify\_email.py\<close>

text \<open>
  C6. In every run in which a message is handed to the SMTP server, the status line of
  its body reads \<open>Status   : Fail\<close> when \<open>--status\<close> is \<open>Failed\<close>, and carries the status
  unchanged when \<open>--status\<close> is \<open>Success\<close>, \<open>Fail\<close> or \<open>Success/Fail\<close>.
\<close>

theorem failed_status_embedded_as_fail:
  assumes "SendMessage m \<in> set (snd (snd (email_main B env w args)))"
  shows "(arg_status args = ''Failed'' \<longrightarrow>
            msg_content m =
              set_content_text (email_body (arg_site args) ''Fail'' (arg_duration args))
          \<and> sublist (bullet @ '' Status   : '' @ ''Fail'' @ [CHR 0x0A]) (msg_content m))
       \<and> (arg_status args \<in> set [''Success'', ''Fail'', ''Success/Fail''] \<longrightarrow>
            msg_content m =
              set_content_text (email_body (arg_site args) (arg_status args) (arg_duration args))
          \<and> sublist (bullet @ '' Status   : '' @ arg_status args @ [CHR 0x0A]) (msg_content m))"
proof -
  have body: "msg_content m =
      set_content_text
        (email_body (arg_site args) (effective_status (arg_status args)) (arg_duration args))"
    using assms by (rule email_main_sent_body)
  have line: "sublist (bullet @ '' Status   : '' @ s @ [CHR 0x0A])
                (set_content_text (email_body (arg_site args) s (arg_duration args)))"
    if "s \<in> set [''Success'', ''Fail'', ''Success/Fail'']" for s
  proof -
    from that have "CHR 0x0D \<notin> set s" by auto
    then show ?thesis by (rule status_line_in_body)
  qed
  show ?thesis
  proof (intro conjI impI)
    assume "arg_status args = ''Failed''"
    then show "msg_content m =
        set_content_text (email_body (arg_site args) ''Fail'' (arg_duration args))"
      using body by (simp add: effective_status_def)
  next
    assume "arg_status args = ''Failed''"
    then have "msg_content m =
        set_content_text (email_body (arg_site args) ''Fail'' (arg_duration args))"
      using body by (simp add: effective_status_def)
    then show "sublist (bullet @ '' Status   : '' @ ''Fail'' @ [CHR 0x0A]) (msg_content m)"
      using line [of "''Fail''"] by simp
  next
    assume a: "arg_status args \<in> set [''Success'', ''Fail'', ''Success/Fail'']"
    then show "msg_content m =
        set_content_text (email_body (arg_site args) (arg_status args) (arg_duration args))"
      using body by (auto simp: effective_status_def)
  next
    assume a: "arg_status args \<in> set [''Success'', ''Fail'', ''Success/Fail'']"
    then have "msg_content m =
        set_content_text (email_body (arg_site args) (arg_status args) (arg_duration args))"
      using body by (auto simp: effective_status_def)
    then show "sublist (bullet @ '' Status   : '' @ arg_status args @ [CHR 0x0A]) (msg_content m)"
      using line [OF a] by simp
  qed
qed

text \<open>The run on the sample environment and arguments.\<close>

lemma sample_run:
  "email_main ascii_builtins sample_env sample_world sample_args =
     (Exit 0,
      [Line Stdout ''[notify_email] Email sent to: a@example.com, b@example.com''],
      [ConnectPlain ''smtp.example.com'' 587, Ehlo, StartTLS, Ehlo, Login ''ci'' ''secret'',
       SendMessage sample_msg, Quit])"
  by (simp add: email_defs sample_defs ascii_defs)

theorem failed_status_embedded_as_fail_witness:
  "SendMessage sample_msg
     \<in> set (snd (snd (email_main ascii_builtins sample_env sample_world sample_args)))
   \<and> arg_status sample_args = ''Failed''
   \<and> msg_content sample_msg =
       set_content_text (email_body ''https://example.com'' ''Fail'' ''4.99'')
   \<and> sublist (bullet @ '' Status   : Fail'' @ [CHR 0x0A]) (msg_content sample_msg)"
proof -
  have a: "SendMessage sample_msg
     \<in> set (snd (snd (email_main ascii_builtins sample_env sample_world sample_args)))"
    by (simp add: sample_run)
  have b: "arg_status sample_args = ''Failed''"
    by (simp add: sample_args_def)
  have "msg_content sample_msg =
          set_content_text (email_body (arg_site sample_args) ''Fail'' (arg_duration sample_args))
        \<and> sublist (bullet @ '' Status   : '' @ ''Fail'' @ [CHR 0x0A]) (msg_content sample_msg)"
    using failed_status_embedded_as_fail [OF a] b by blast
  then have c: "msg_content sample_msg =
          set_content_text (email_body (arg_site sample_args) ''Fail'' (arg_duration sample_args))"
    and d: "sublist (bullet @ '' Status   : '' @ ''Fail'' @ [CHR 0x0A]) (msg_content sample_msg)"
    by blast+
  have e: "msg_content sample_msg =
          set_content_text (email_body ''https://example.com'' ''Fail'' ''4.99'')"
    using c by (simp add: sample_args_def)
  have f: "bullet @ '' Status   : '' @ ''Fail'' @ [CHR 0x0A] =
           bullet @ '' Status   : Fail'' @ [CHR 0x0A]"
    by simp
  have "sublist (bullet @ '' Status   : Fail'' @ [CHR 0x0A]) (msg_content sample_msg)"
    using d unfolding f .
  with a b e show ?thesis by blast
qed

text \<open>
  C8, as the code has it. For a non-empty \<open>--report\<close> path that does not exist,
  \<open>attach_file\<close> prints the warning to standard error and leaves the email as it is, with
  no attachment; once the configuration is validated and the message built, \<open>main\<close> hands
  that message to \<open>send_email\<close> and, when the send succeeds, returns 0.
\<close>

theorem missing_report_warns_and_sends:
  assumes "arg_report args = Some p" and "p \<noteq> []" and "\<not> fs_exists (w_fs w) p"
    and "py_int B (os_getenv env ''SMTP_PORT'' ''587'') = Some port"
    and "truthy (env ''SMTP_HOST'')" and "truthy (env ''EMAIL_FROM'')"
    and "os_getenv env ''EMAIL_TO'' [] \<noteq> [] \<or> truthy (arg_to args)"
    and "resolve_recipients B (arg_to args) (os_getenv env ''EMAIL_TO'' []) \<noteq> []"
    and "build_message B (w_clock w) env (arg_site args) (effective_status (arg_status args))
           (arg_duration args) (the (env ''EMAIL_FROM''))
           (resolve_recipients B (arg_to args) (os_getenv env ''EMAIL_TO'' []))
           (Some (os_getenv env ''TZ'' ''Asia/Jakarta'')) = Inr msg"
    and "send_email (w_server w) msg (the (env ''SMTP_HOST'')) port
           (os_getenv env ''SMTP_USER'' []) (os_getenv env ''SMTP_PASS'' []) = (None, tr)"
  shows "attach_file (w_fs w) msg (arg_report args) =
           (None, msg,
            [Line Stderr (''[notify_email] WARNING: attachment not found: '' @ p) :: unit line])
       \<and> msg_attachments msg = []
       \<and> email_main B env w args =
           (Exit 0,
            [Line Stderr (''[notify_email] WARNING: attachment not found: '' @ p),
             Line Stdout (''[notify_email] Email sent to: '' @
               str_join '', '' (resolve_recipients B (arg_to args) (os_getenv env ''EMAIL_TO'' [])))],
            tr)"
proof -
  have att: "attach_file (w_fs w) msg (arg_report args) =
           (None, msg,
            [Line Stderr (''[notify_email] WARNING: attachment not found: '' @ p) :: unit line])"
    using assms(1-3) by (simp add: attach_file_def)
  have noatt: "msg_attachments msg = []"
    using build_message_content [OF assms(9)] by simp
  have "email_main B env w args =
           (Exit 0,
            [Line Stderr (''[notify_email] WARNING: attachment not found: '' @ p),
             Line Stdout (''[notify_email] Email sent to: '' @
               str_join '', '' (resolve_recipients B (arg_to args) (os_getenv env ''EMAIL_TO'' [])))],
            tr)"
    using email_main_validated [OF assms(4-8), of w] assms(9,10) att by simp
  with att noatt show ?thesis by simp
qed

theorem missing_report_warns_and_sends_witness:
  "arg_report missing_report_args = Some ''dashboard/index.html''
   \<and> \<not> fs_exists (w_fs sample_world) ''dashboard/index.html''
   \<and> email_main ascii_builtins sample_env sample_world missing_report_args =
       (Exit 0,
        [Line Stderr ''[notify_email] WARNING: attachment not found: dashboard/index.html'',
         Line Stdout ''[notify_email] Email sent to: a@example.com''],
        [ConnectPlain ''smtp.example.com'' 587, Ehlo, StartTLS, Ehlo, Login ''ci'' ''secret'',
         SendMessage
           \<lparr>msg_from = ''ci@example.com'', msg_to = ''a@example.com'',
             msg_subject = ''PageSpeed Insight Report - 04 Nov 2026 | 20:05 WIB'',
             msg_content = set_content_text (email_body ''https://example.com'' ''Success'' ''4.99''),
             msg_attachments = []\<rparr>,
         Quit])"
  using missing_report_warns_and_sends [where args = missing_report_args
      and p = "''dashboard/index.html''" and w = sample_world and B = ascii_builtins
      and env = sample_env and port = 587
      and msg = "\<lparr>msg_from = ''ci@example.com'', msg_to = ''a@example.com'',
             msg_subject = ''PageSpeed Insight Report - 04 Nov 2026 | 20:05 WIB'',
             msg_content = set_content_text (email_body ''https://example.com'' ''Success'' ''4.99''),
             msg_attachments = []\<rparr>"
      and tr = "[ConnectPlain ''smtp.example.com'' 587, Ehlo, StartTLS, Ehlo, Login ''ci'' ''secret'',
         SendMessage
           \<lparr>msg_from = ''ci@example.com'', msg_to = ''a@example.com'',
             msg_subject = ''PageSpeed Insight Report - 04 Nov 2026 | 20:05 WIB'',
             msg_content = set_content_text (email_body ''https://example.com'' ''Success'' ''4.99''),
             msg_attachments = []\<rparr>,
         Quit]"]
  by (simp add: email_defs sample_defs ascii_defs)

text \<open>
  The claim as worded fails for the empty path: \<open>--report ""\<close> names nothing that exists,
  yet \<open>attach_file\<close> returns at \<open>if not path\<close> and no warning is printed.
\<close>

theorem empty_report_no_warning:
  "arg_report empty_report_args = Some []
   \<and> \<not> fs_exists (w_fs sample_world) []
   \<and> fst (snd (email_main ascii_builtins sample_env sample_world empty_report_args)) =
       [Line Stdout ''[notify_email] Email sent to: a@example.com'']"
  by (simp add: email_defs sample_defs ascii_defs)

subsection \<open>The request of notify\_telegram.py\<close>

lemmas telegram_defs = telegram_main_def env_lookup_def send_message_def message_request_def
  message_data_def urlencode_def quote_plus_def quote_byte_def always_safe_def hex_digit_def
  str_opt_def message_text_def message_lines_def badge_of_def badge_fail_def badge_success_def
  now_str_def report_result_def get_method_def cross_mark_def check_mark_def os_getenv_def
  truthy_def strftime_dbY_def strftime_HM_def two_digits_def str_nat.simps digit_char_def Let_def

lemmas telegram_sample_defs = response_ok_def response_rejected_def response_without_ok_def
  transport_ok_def transport_rejected_def transport_without_ok_def failed_targs_def
  success_targs_def tworld_ok_def tworld_rejected_def tworld_without_ok_def
  claimed_message_data_def sample_env_def sample_clock_def sample_now_def

lemma urlencode_message_data:
  "urlencode (message_data chat_id text ''HTML'') =
     ''chat_id='' @ quote_plus chat_id @ ''&text='' @ quote_plus text @
     ''&parse_mode=HTML&disable_web_page_preview=True''"
  by (simp add: urlencode_def message_data_def quote_plus_def quote_byte_def always_safe_def)

text \<open>
  C5, as the code has it. \<open>send_message\<close> issues exactly one request: a POST to
  \<open>https://api.telegram.org/bot<TOKEN>/sendMessage\<close> whose form-urlencoded body has the
  fields \<open>chat_id\<close>, \<open>text\<close>, \<open>parse_mode=HTML\<close> and \<open>disable_web_page_preview=True\<close>:
  \<open>urlencode\<close> renders the Python boolean with \<open>str\<close>.
\<close>

theorem send_message_one_post:
  "send_message http token chat_id text ''HTML'' =
     (http (message_request token chat_id text ''HTML''),
      [message_request token chat_id text ''HTML''])
   \<and> get_method (message_request token chat_id text ''HTML'') = POST
   \<and> req_url (message_request token chat_id text ''HTML'') =
       ''https://api.telegram.org/bot'' @ token @ ''/sendMessage''
   \<and> req_data (message_request token chat_id text ''HTML'') =
       Some (''chat_id='' @ quote_plus chat_id @ ''&text='' @ quote_plus text @
             ''&parse_mode=HTML&disable_web_page_preview=True'')"
  by (simp add: send_message_def Let_def get_method_def message_request_def urlencode_message_data)

theorem send_message_one_post_witness:
  "send_message transport_ok ''123:abc'' ''-1001'' ''a b&c'' ''HTML'' =
     (Inr response_ok,
      [\<lparr>req_url = ''https://api.telegram.org/bot123:abc/sendMessage'',
        req_data = Some ''chat_id=-1001&text=a+b%26c&parse_mode=HTML&disable_web_page_preview=True'',
        req_timeout = 20\<rparr>])"
  using send_message_one_post [of transport_ok "''123:abc''" "''-1001''" "''a b&c''"]
  by (simp add: telegram_defs transport_ok_def)

text \<open>
  The body never carries \<open>disable_web_page_preview=true\<close> as the claim words it: for the
  chat \<open>-1001\<close> and the text \<open>hi\<close> the bytes sent differ from the claimed ones.
\<close>

theorem preview_flag_counterexample:
  "req_data (message_request ''123:abc'' ''-1001'' ''hi'' ''HTML'') =
     Some ''chat_id=-1001&text=hi&parse_mode=HTML&disable_web_page_preview=True''
   \<and> urlencode (claimed_message_data ''-1001'' ''hi'') =
     ''chat_id=-1001&text=hi&parse_mode=HTML&disable_web_page_preview=true''
   \<and> req_data (message_request ''123:abc'' ''-1001'' ''hi'' ''HTML'') \<noteq>
     Some (urlencode (claimed_message_data ''-1001'' ''hi''))"
  by (simp add: telegram_defs claimed_message_data_def)

subsection \<open>The response of the Telegram API\<close>

text \<open>\<open>main\<close> once both variables are found and the call has returned a decoded response.\<close>

lemma telegram_main_answered:
  assumes "env ''TELEGRAM_BOT_TOKEN'' = Some token" and "py_strip B token \<noteq> []"
    and "env ''TELEGRAM_CHAT_ID'' = Some chat_id" and "py_strip B chat_id \<noteq> []"
    and "tw_http w (message_request token chat_id (message_text B env w args) ''HTML'') = Inr res"
  shows "telegram_main B env w args =
           (fst (report_result res), snd (report_result res),
            [message_request token chat_id (message_text B env w args) ''HTML''])"
  using assms
  by (simp add: telegram_main_def env_lookup_def send_message_def str_opt_def Let_def
      split: prod.splits)

text \<open>
  C4. When the decoded response carries \<open>"ok": false\<close>, notify\_telegram.py prints the raw
  response to standard error and exits with code 1; when it carries \<open>"ok": true\<close>, it
  prints the confirmation and exits with code 0.
\<close>

theorem ok_flag_decides_exit:
  assumes "env ''TELEGRAM_BOT_TOKEN'' = Some token" and "py_strip B token \<noteq> []"
    and "env ''TELEGRAM_CHAT_ID'' = Some chat_id" and "py_strip B chat_id \<noteq> []"
    and "tw_http w (message_request token chat_id (message_text B env w args) ''HTML'') = Inr res"
    and "res = JDict kvs"
  shows "(map_of kvs ''ok'' = Some (JBool False) \<longrightarrow>
            fst (telegram_main B env w args) = Exit 1
          \<and> fst (snd (telegram_main B env w args)) =
              [LineRepr Stderr ''[notify_telegram] Telegram API error: '' res])
       \<and> (map_of kvs ''ok'' = Some (JBool True) \<longrightarrow>
            fst (telegram_main B env w args) = Exit 0
          \<and> fst (snd (telegram_main B env w args)) =
              [Line Stdout ''[notify_telegram] Sent.''])"
  using assms(6) by (simp add: telegram_main_answered [OF assms(1-5)] report_result_def)

lemma sample_token: "sample_env ''TELEGRAM_BOT_TOKEN'' = Some ''123:abc''"
  by (simp add: sample_env_def)

lemma sample_chat_id: "sample_env ''TELEGRAM_CHAT_ID'' = Some ''-1001''"
  by (simp add: sample_env_def)

lemma sample_token_strip: "py_strip ascii_builtins ''123:abc'' \<noteq> []"
  by (simp add: ascii_builtins_def ascii_strip_def is_space_def)

lemma sample_chat_id_strip: "py_strip ascii_builtins ''-1001'' \<noteq> []"
  by (simp add: ascii_builtins_def ascii_strip_def is_space_def)

theorem ok_flag_decides_exit_witness:
  "map_of [(''ok'', JBool False), (''error_code'', JInt 400), (''description'', JStr ''Bad Request'')]
      ''ok'' = Some (JBool False)
   \<and> fst (telegram_main ascii_builtins sample_env tworld_rejected failed_targs) = Exit 1
   \<and> fst (snd (telegram_main ascii_builtins sample_env tworld_rejected failed_targs)) =
       [LineRepr Stderr ''[notify_telegram] Telegram API error: '' response_rejected]
   \<and> map_of [(''ok'', JBool True), (''result'', JDict [(''message_id'', JInt 7)])]
      ''ok'' = Some (JBool True)
   \<and> fst (telegram_main ascii_builtins sample_env tworld_ok failed_targs) = Exit 0
   \<and> fst (snd (telegram_main ascii_builtins sample_env tworld_ok failed_targs)) =
       [Line Stdout ''[notify_telegram] Sent.'']"
proof -
  have r: "tw_http tworld_rejected
             (message_request ''123:abc'' ''-1001''
                (message_text ascii_builtins sample_env tworld_rejected failed_targs) ''HTML'')
           = Inr response_rejected"
    by (simp add: tworld_rejected_def transport_rejected_def)
  have a: "tw_http tworld_ok
             (message_request ''123:abc'' ''-1001''
                (message_text ascii_builtins sample_env tworld_ok failed_targs) ''HTML'')
           = Inr response_ok"
    by (simp add: tworld_ok_def transport_ok_def)
  show ?thesis
    using ok_flag_decides_exit [OF sample_token sample_token_strip sample_chat_id
        sample_chat_id_strip r response_rejected_def]
      ok_flag_decides_exit [OF sample_token sample_token_strip sample_chat_id
        sample_chat_id_strip a response_ok_def]
    by simp
qed

text \<open>
  C10. When the decoded response is an object without the key \<open>ok\<close>, notify\_telegram.py
  treats it as a failure of the API: it prints the raw response to standard error and
  exits with code 1, never with code 0.
\<close>

theorem missing_ok_is_failure:
  assumes "env ''TELEGRAM_BOT_TOKEN'' = Some token" and "py_strip B token \<noteq> []"
    and "env ''TELEGRAM_CHAT_ID'' = Some chat_id" and "py_strip B chat_id \<noteq> []"
    and "tw_http w (message_request token chat_id (message_text B env w args) ''HTML'') = Inr res"
    and "res = JDict kvs" and "map_of kvs ''ok'' = None"
  shows "fst (telegram_main B env w args) = Exit 1
       \<and> fst (snd (telegram_main B env w args)) =
           [LineRepr Stderr ''[notify_telegram] Telegram API error: '' res]
       \<and> exit_code (fst (telegram_main B env w args)) \<noteq> 0"
  using assms(6,7) by (simp add: telegram_main_answered [OF assms(1-5)] report_result_def)

theorem missing_ok_is_failure_witness:
  "map_of [(''error_code'', JInt 502)] ''ok'' = None
   \<and> fst (telegram_main ascii_builtins sample_env tworld_without_ok success_targs) = Exit 1
   \<and> fst (snd (telegram_main ascii_builtins sample_env tworld_without_ok success_targs)) =
       [LineRepr Stderr ''[notify_telegram] Telegram API error: '' response_without_ok]"
proof -
  have r: "tw_http tworld_without_ok
             (message_request ''123:abc'' ''-1001''
                (message_text ascii_builtins sample_env tworld_without_ok success_targs) ''HTML'')
           = Inr response_without_ok"
    by (simp add: tworld_without_ok_def transport_without_ok_def)
  have m: "map_of [(''error_code'', JInt 502)] ''ok'' = None" by simp
  show ?thesis
    using m missing_ok_is_failure [OF sample_token sample_token_strip sample_chat_id
        sample_chat_id_strip r response_without_ok_def m]
    by simp
qed

subsection \<open>The text of the Telegram message\<close>

lemma message_text_shape:
  "\<exists>rest. message_text B env w args =
     (''<b>PageSpeed Insight Report</b>'' @ [CHR 0x0A] @ ''Status: <b>'')
     @ badge_of B (t_status args) @ rest"
  by (simp add: message_text_def message_lines_def)

lemma badge_in_text: "sublist (badge_of B (t_status args)) (message_text B env w args)"
proof -
  obtain rest where "message_text B env w args =
     (''<b>PageSpeed Insight Report</b>'' @ [CHR 0x0A] @ ''Status: <b>'')
     @ badge_of B (t_status args) @ rest"
    using message_text_shape by blast
  then show ?thesis
    unfolding sublist_def by blast
qed

text \<open>
  C7. When the trimmed, upper-cased \<open>--status\<close> is \<open>FAIL\<close> or \<open>FAILED\<close>, the text of the
  Telegram message contains the cross mark followed by \<open>FAILED\<close>; for every other
  \<open>--status\<close> it contains the check mark followed by \<open>SUCCESS\<close>.
\<close>

theorem status_badge:
  "(py_upper B (py_strip B (t_status args)) \<in> set [''FAIL'', ''FAILED''] \<longrightarrow>
      sublist (cross_mark @ '' FAILED'') (message_text B env w args))
   \<and> (py_upper B (py_strip B (t_status args)) \<notin> set [''FAIL'', ''FAILED''] \<longrightarrow>
      sublist (check_mark @ '' SUCCESS'') (message_text B env w args))"
  using badge_in_text [of B args env w]
  by (auto simp: badge_of_def badge_fail_def badge_success_def Let_def)

theorem status_badge_witness:
  "py_upper ascii_builtins (py_strip ascii_builtins (t_status failed_targs)) = ''FAILED''
   \<and> sublist (cross_mark @ '' FAILED'')
        (message_text ascii_builtins sample_env tworld_ok failed_targs)
   \<and> py_upper ascii_builtins (py_strip ascii_builtins (t_status success_targs)) = ''SUCCESS''
   \<and> sublist (check_mark @ '' SUCCESS'')
        (message_text ascii_builtins sample_env tworld_ok success_targs)"
proof -
  have f: "py_upper ascii_builtins (py_strip ascii_builtins (t_status failed_targs)) = ''FAILED''"
    by (simp add: ascii_defs failed_targs_def)
  have s: "py_upper ascii_builtins (py_strip ascii_builtins (t_status success_targs)) = ''SUCCESS''"
    by (simp add: ascii_defs success_targs_def)
  show ?thesis
    using status_badge [of ascii_builtins failed_targs sample_env tworld_ok]
      status_badge [of ascii_builtins success_targs sample_env tworld_ok]
    by (simp add: f s)
qed

end
